theory Spec2Isabelle
  imports Complex_Main "HOL-Library.Sublist"
begin

section \<open>Strings\<close>

text \<open>
  A Python \<open>str\<close> is modelled as a \<open>string\<close>; one \<open>char\<close> stands for one code point, so
  the model covers the texts whose code points lie below 256.  The helpers below are
  the \<open>str\<close> methods that digit.py calls.
\<close>

definition char_code :: "char \<Rightarrow> nat" where
  "char_code c = of_char c"

definition is_upper :: "char \<Rightarrow> bool" where
  "is_upper c = ((65 \<le> char_code c \<and> char_code c \<le> 90) \<or> (192 \<le> char_code c \<and> char_code c \<le> 222 \<and> char_code c \<noteq> 215))"

definition lower_char :: "char \<Rightarrow> char" where
  "lower_char c = (if is_upper c then char_of (char_code c + 32) else c)"

definition lower :: "string \<Rightarrow> string" where
  "lower s = map lower_char s"

definition is_ascii_alpha :: "char \<Rightarrow> bool" where
  "is_ascii_alpha c = ((65 \<le> char_code c \<and> char_code c \<le> 90) \<or> (97 \<le> char_code c \<and> char_code c \<le> 122))"

definition is_digit :: "char \<Rightarrow> bool" where
  "is_digit c = (48 \<le> char_code c \<and> char_code c \<le> 57)"

definition is_space :: "char \<Rightarrow> bool" where
  "is_space c = (char_code c \<in> {9, 10, 11, 12, 13, 28, 29, 30, 31, 32, 133, 160})"

definition startswith :: "string \<Rightarrow> string \<Rightarrow> bool" where
  "startswith s p = prefix p s"

definition endswith :: "string \<Rightarrow> string \<Rightarrow> bool" where
  "endswith s p = suffix p s"

definition lstrip_chars :: "string \<Rightarrow> string \<Rightarrow> string" where
  "lstrip_chars cs s = dropWhile (\<lambda>c. c \<in> set cs) s"

definition rstrip_chars :: "string \<Rightarrow> string \<Rightarrow> string" where
  "rstrip_chars cs s = rev (dropWhile (\<lambda>c. c \<in> set cs) (rev s))"

definition strip_chars :: "string \<Rightarrow> string \<Rightarrow> string" where
  "strip_chars cs s = lstrip_chars cs (rstrip_chars cs s)"

text \<open>\<open>s.split(sep, 1)\<close> for a one-character separator that occurs in \<open>s\<close>.\<close>

definition before :: "char \<Rightarrow> string \<Rightarrow> string" where
  "before d s = takeWhile (\<lambda>c. c \<noteq> d) s"

definition after :: "char \<Rightarrow> string \<Rightarrow> string" where
  "after d s = drop 1 (dropWhile (\<lambda>c. c \<noteq> d) s)"

section \<open>The URL functions of urllib.parse\<close>

text \<open>
  digit.py reads URLs through \<open>urlparse\<close>, \<open>urldefrag\<close> and \<open>geturl\<close> of the Python standard
  library.  They are transcribed here from CPython 3.11 (Lib/urllib/parse.py), called as
  digit.py calls them: on \<open>str\<close>, with the default empty scheme and fragments allowed.
  \<open>urlsplit\<close> raises ValueError on a malformed bracketed host; the exception is the \<open>Inl\<close>
  branch.  Four library behaviours are left as parameters, gathered in \<open>pylib\<close>: the
  validation of a bracketed host literal (module ipaddress), \<open>urljoin\<close>, the hex digest
  of the SHA-1 of a text's UTF-8 encoding, and \<open>re.compile\<close>, which gives the pattern's
  \<open>search\<close> as a predicate, or \<open>None\<close> when it raises \<open>re.error\<close>.
\<close>

datatype error = ValueError | ZeroDivisionError | RegexError

record pylib =
  check_bracketed_host :: "string \<Rightarrow> bool"
  urljoin :: "string \<Rightarrow> string \<Rightarrow> error + string"
  sha1_hexdigest :: "string \<Rightarrow> string"
  re_compile :: "string \<Rightarrow> (string \<Rightarrow> bool) option"

record parse_result =
  scheme :: string
  netloc :: string
  path :: string
  params :: string
  query :: string
  fragment :: string

definition scheme_chars :: string where
  "scheme_chars = ''abcdefghijklmnopqrstuvwxyzABCDEFGHIJKLMNOPQRSTUVWXYZ0123456789+-.''"

definition uses_params :: "string list" where
  "uses_params = ['''', ''ftp'', ''hdl'', ''prospero'', ''http'', ''imap'', ''https'', ''shttp'',
     ''rtsp'', ''rtsps'', ''rtspu'', ''sip'', ''sips'', ''mms'', ''sftp'', ''tel'']"

definition uses_netloc :: "string list" where
  "uses_netloc = ['''', ''ftp'', ''http'', ''gopher'', ''nntp'', ''telnet'', ''imap'', ''wais'',
     ''file'', ''mms'', ''https'', ''shttp'', ''snews'', ''prospero'', ''rtsp'', ''rtsps'',
     ''rtspu'', ''rsync'', ''svn'', ''svn+ssh'', ''sftp'', ''nfs'', ''git'', ''git+ssh'', ''ws'', ''wss'']"

definition c0_control_or_space :: "char \<Rightarrow> bool" where
  "c0_control_or_space c = (char_code c \<le> 32)"

definition unsafe_url_byte :: "char \<Rightarrow> bool" where
  "unsafe_url_byte c = (char_code c \<in> {9, 13, 10})"

definition netloc_delim :: "char \<Rightarrow> bool" where
  "netloc_delim c = (c \<in> set ''/?#'')"

text \<open>The scheme, when the text before the first colon is one, and the rest of the URL.\<close>

definition split_scheme :: "string \<Rightarrow> string \<times> string" where
  "split_scheme url =
     (let s = before CHR '':'' url in
      if CHR '':'' \<in> set url \<and> s \<noteq> [] \<and> is_ascii_alpha (hd s) \<and> list_all (\<lambda>c. c \<in> set scheme_chars) s
      then (lower s, after CHR '':'' url) else ('''', url))"

definition splitnetloc :: "string \<Rightarrow> string \<times> string" where
  "splitnetloc url = (takeWhile (\<lambda>c. \<not> netloc_delim c) (drop 2 url), dropWhile (\<lambda>c. \<not> netloc_delim c) (drop 2 url))"

definition bracketed_host :: "string \<Rightarrow> string" where
  "bracketed_host n = before CHR '']'' (after CHR ''['' n)"

definition netloc_ok :: "pylib \<Rightarrow> string \<Rightarrow> bool" where
  "netloc_ok L n =
     (if CHR ''['' \<in> set n \<and> CHR '']'' \<in> set n then check_bracketed_host L (bracketed_host n)
      else CHR ''['' \<notin> set n \<and> CHR '']'' \<notin> set n)"

definition split_fragment :: "string \<Rightarrow> string \<times> string" where
  "split_fragment url = (if CHR ''#'' \<in> set url then (before CHR ''#'' url, after CHR ''#'' url) else (url, ''''))"

definition split_query :: "string \<Rightarrow> string \<times> string" where
  "split_query url = (if CHR ''?'' \<in> set url then (before CHR ''?'' url, after CHR ''?'' url) else (url, ''''))"

definition urlsplit :: "pylib \<Rightarrow> string \<Rightarrow> error + (string \<times> string \<times> string \<times> string \<times> string)" where
  "urlsplit L url0 =
     (let url1 = filter (\<lambda>c. \<not> unsafe_url_byte c) (dropWhile c0_control_or_space url0);
          (sch, url2) = split_scheme url1;
          (nl, url3) = (if take 2 url2 = ''//'' then splitnetloc url2 else ('''', url2));
          (url4, frag) = split_fragment url3;
          (url5, qry) = split_query url4
      in if netloc_ok L nl then Inr (sch, nl, url5, qry, frag) else Inl ValueError)"

text \<open>\<open>_splitparams\<close>, called when the path holds a semicolon.\<close>

definition splitparams :: "string \<Rightarrow> string \<times> string" where
  "splitparams url =
     (if CHR ''/'' \<in> set url then
        (let seg = rev (takeWhile (\<lambda>c. c \<noteq> CHR ''/'') (rev url));
             dir = take (length url - length seg) url
         in if CHR '';'' \<in> set seg then (dir @ before CHR '';'' seg, after CHR '';'' seg) else (url, ''''))
      else (before CHR '';'' url, after CHR '';'' url))"

definition urlparse :: "pylib \<Rightarrow> string \<Rightarrow> error + parse_result" where
  "urlparse L url =
     (case urlsplit L url of
        Inl e \<Rightarrow> Inl e
      | Inr (sch, nl, u, qry, frag) \<Rightarrow>
          (let (u', prm) = (if sch \<in> set uses_params \<and> CHR '';'' \<in> set u then splitparams u else (u, ''''))
           in Inr \<lparr>scheme = sch, netloc = nl, path = u', params = prm, query = qry, fragment = frag\<rparr>))"

definition urlunsplit :: "string \<Rightarrow> string \<Rightarrow> string \<Rightarrow> string \<Rightarrow> string \<Rightarrow> string" where
  "urlunsplit sch nl url qry frag =
     (let u1 = (if nl \<noteq> [] \<or> (sch \<noteq> [] \<and> sch \<in> set uses_netloc) \<or> take 2 url = ''//''
                then ''//'' @ nl @ (if url \<noteq> [] \<and> take 1 url \<noteq> ''/'' then ''/'' @ url else url)
                else url);
          u2 = (if sch \<noteq> [] then sch @ '':'' @ u1 else u1);
          u3 = (if qry \<noteq> [] then u2 @ ''?'' @ qry else u2)
      in if frag \<noteq> [] then u3 @ ''#'' @ frag else u3)"

definition urlunparse :: "parse_result \<Rightarrow> string" where
  "urlunparse p =
     urlunsplit (scheme p) (netloc p)
       (if params p \<noteq> [] then path p @ '';'' @ params p else path p) (query p) (fragment p)"

definition geturl :: "parse_result \<Rightarrow> string" where
  "geturl p = urlunparse p"

definition urldefrag :: "pylib \<Rightarrow> string \<Rightarrow> error + string" where
  "urldefrag L url =
     (if CHR ''#'' \<in> set url then
        (case urlparse L url of Inl e \<Rightarrow> Inl e | Inr p \<Rightarrow> Inr (urlunparse (p\<lparr>fragment := ''''\<rparr>)))
      else Inr url)"

section \<open>URL helpers of digit.py\<close>

text \<open>\<open>normalize_url\<close>: the argument is what \<open>a.get("href")\<close> returns, \<open>None\<close> for an anchor
  without the attribute.\<close>

definition normalize_url :: "pylib \<Rightarrow> string \<Rightarrow> string option \<Rightarrow> error + string option" where
  "normalize_url L base href =
     (case href of
        None \<Rightarrow> Inr None
      | Some h \<Rightarrow>
          if h = [] then Inr None
          else (case urljoin L base h of
                  Inl e \<Rightarrow> Inl e
                | Inr joined \<Rightarrow>
                    (case urldefrag L joined of
                       Inl e \<Rightarrow> Inl e
                     | Inr abs_url \<Rightarrow>
                         (case urlparse L abs_url of
                            Inl e \<Rightarrow> Inl e
                          | Inr parsed \<Rightarrow>
                              if scheme parsed \<notin> {''http'', ''https''} then Inr None
                              else Inr (Some (geturl (parsed\<lparr>netloc := lower (netloc parsed)\<rparr>)))))))"

definition same_scope :: "pylib \<Rightarrow> string \<Rightarrow> string \<Rightarrow> error + bool" where
  "same_scope L seed candidate =
     (case urlparse L seed of
        Inl e \<Rightarrow> Inl e
      | Inr a \<Rightarrow>
          (case urlparse L candidate of
             Inl e \<Rightarrow> Inl e
           | Inr b \<Rightarrow> Inr ((scheme a, netloc a) = (scheme b, netloc b) \<and> startswith (path b) (path a))))"

section \<open>Path Resolver\<close>

text \<open>
  A \<open>pathlib.Path\<close> is the list of its parts.  \<open>truediv\<close> is the operator \<open>/\<close> with a string
  on the right: the string's empty and \<open>.\<close> segments are dropped, and a string that
  starts with a slash replaces the left operand.
\<close>

type_synonym py_path = "string list"

fun split_on :: "char \<Rightarrow> string \<Rightarrow> string list" where
  "split_on d [] = [[]]"
| "split_on d (c # cs) =
     (if c = d then [] # split_on d cs
      else (case split_on d cs of [] \<Rightarrow> [[c]] | x # xs \<Rightarrow> (c # x) # xs))"

definition path_parts :: "string \<Rightarrow> string list" where
  "path_parts s = filter (\<lambda>seg. seg \<noteq> [] \<and> seg \<noteq> ''.'') (split_on CHR ''/'' s)"

definition truediv :: "py_path \<Rightarrow> string \<Rightarrow> py_path" where
  "truediv p s = (if startswith s ''/'' then ''/'' # path_parts s else p @ path_parts s)"

definition safe_char :: "char \<Rightarrow> bool" where
  "safe_char c = ((97 \<le> char_code c \<and> char_code c \<le> 122) \<or> (65 \<le> char_code c \<and> char_code c \<le> 90) \<or> is_digit c
                  \<or> c = CHR ''/'' \<or> c = CHR ''_'' \<or> c = CHR ''-'')"

definition sanitize :: "string \<Rightarrow> string" where
  "sanitize s = map (\<lambda>c. if safe_char c then c else CHR ''-'') s"

definition format_ext :: "string \<Rightarrow> string" where
  "format_ext fmt = (if fmt = ''md'' then ''.md'' else ''.'' @ fmt)"

text \<open>The three rewrites of the page path before flattening (lines 493 to 499).\<close>

definition index_leaf :: "string \<Rightarrow> string" where
  "index_leaf p0 =
     (let p1 = (if endswith p0 ''/'' then p0 @ ''index'' else p0);
          p2 = (if p1 = [] then ''index'' else p1)
      in if endswith p2 ''.html'' then take (length p2 - 5) p2 else p2)"

text \<open>Folder-index flattening (lines 505 to 518); \<open>rp\<close> is the path of the root URL.\<close>

definition flatten_index :: "string \<Rightarrow> string \<Rightarrow> string" where
  "flatten_index rp p =
     (if endswith p ''/index'' then
        (let root_path = rstrip_chars ''/'' rp;
             path_without_index = take (length p - 6) p
         in if path_without_index = root_path \<or> path_without_index = root_path @ ''/'' then p
            else if path_without_index = [] \<or> path_without_index = ''/'' then ''index''
            else path_without_index)
      else p)"

definition slugify_path :: "pylib \<Rightarrow> py_path \<Rightarrow> string \<Rightarrow> string \<Rightarrow> string \<Rightarrow> string \<Rightarrow> error + py_path" where
  "slugify_path L base root_url page_url lang_hint fmt =
     (case urlparse L root_url of
        Inl e \<Rightarrow> Inl e
      | Inr a \<Rightarrow>
          (case urlparse L page_url of
             Inl e \<Rightarrow> Inl e
           | Inr b \<Rightarrow>
               (let p = flatten_index (path a) (index_leaf (path b));
                    safe = strip_chars ''/'' (sanitize p)
                in Inr (truediv base (safe @ format_ext fmt)))))"

section \<open>Output Writer\<close>

text \<open>
  The file store maps a path to the text stored there; \<open>Unreadable\<close> is a path that exists
  but whose \<open>read()\<close> raises.  Every write performed is appended to \<open>writes\<close> and every
  page request to \<open>requests\<close>, oldest first.  Creating the parent directories changes no
  file and is not recorded; the store accepts every write.
\<close>

datatype stored_file = Text string | Unreadable

record system =
  files :: "py_path \<Rightarrow> stored_file option"
  writes :: "(py_path \<times> string) list"
  requests :: "string list"

type_synonym meta = "(string \<times> string) list"

definition meta_get :: "meta \<Rightarrow> string \<Rightarrow> string" where
  "meta_get m k = (case map_of m k of None \<Rightarrow> '''' | Some v \<Rightarrow> v)"

definition hash_content :: "pylib \<Rightarrow> string \<Rightarrow> string" where
  "hash_content L content = sha1_hexdigest L content"

definition digit_char :: "nat \<Rightarrow> char" where
  "digit_char n = char_of (48 + n)"

fun decimal :: "nat \<Rightarrow> string" where
  "decimal n = (if n < 10 then [digit_char n] else decimal (n div 10) @ [digit_char (n mod 10)])"

definition str_int :: "int \<Rightarrow> string" where
  "str_int i = (if i < 0 then ''-'' @ decimal (nat (- i)) else decimal (nat i))"

text \<open>\<open>str.replace\<close>: every occurrence, left to right, without overlap.\<close>

fun replace :: "string \<Rightarrow> string \<Rightarrow> string \<Rightarrow> string" where
  "replace old new [] = (if old = [] then new else [])"
| "replace old new (c # cs) =
     (if old = [] then new @ c # replace old new cs
      else if prefix old (c # cs) then new @ replace old new (drop (length old - 1) cs)
      else c # replace old new cs)"

definition join :: "string \<Rightarrow> string list \<Rightarrow> string" where
  "join sep xs = (case xs of [] \<Rightarrow> [] | y # ys \<Rightarrow> y @ concat (map (\<lambda>x. sep @ x) ys))"

text \<open>The string escaping of \<open>json.dumps\<close> with \<open>ensure_ascii=False\<close>.\<close>

definition hex_char :: "nat \<Rightarrow> char" where
  "hex_char n = (if n < 10 then char_of (48 + n) else char_of (87 + n))"

definition json_escape_char :: "char \<Rightarrow> string" where
  "json_escape_char c =
     (if c = CHR 0x5C then [CHR 0x5C, CHR 0x5C]
      else if c = CHR 0x22 then [CHR 0x5C, CHR 0x22]
      else if c = CHR 0x08 then [CHR 0x5C, CHR ''b'']
      else if c = CHR 0x0C then [CHR 0x5C, CHR ''f'']
      else if c = CHR 0x0A then [CHR 0x5C, CHR ''n'']
      else if c = CHR 0x0D then [CHR 0x5C, CHR ''r'']
      else if c = CHR 0x09 then [CHR 0x5C, CHR ''t'']
      else if char_code c < 32 then [CHR 0x5C, CHR ''u'', CHR ''0'', CHR ''0'', hex_char (char_code c div 16), hex_char (char_code c mod 16)]
      else [c])"

definition json_string :: "string \<Rightarrow> string" where
  "json_string s = [CHR 0x22] @ concat (map json_escape_char s) @ [CHR 0x22]"

definition json_key :: "string \<Rightarrow> string" where
  "json_key k = ''  '' @ json_string k @ '': ''"

text \<open>The serialisation of lines 530 to 555; \<open>now\<close> is what \<open>int(time.time())\<close> returns.\<close>

definition final_content :: "int \<Rightarrow> string \<Rightarrow> meta \<Rightarrow> string \<Rightarrow> string \<Rightarrow> string" where
  "final_content now content m fmt html_cleaned =
     (if fmt = ''md'' then
        join [CHR 0x0A]
          [''---'',
           ''title: '' @ replace '':'' ''-'' (meta_get m ''title''),
           ''url: '' @ meta_get m ''url'',
           ''date_scraped: '' @ str_int now,
           ''---'',
           ''''] @ content
      else if fmt = ''json'' then
        ''{'' @ [CHR 0x0A]
        @ json_key ''title'' @ json_string (meta_get m ''title'') @ '','' @ [CHR 0x0A]
        @ json_key ''url'' @ json_string (meta_get m ''url'') @ '','' @ [CHR 0x0A]
        @ json_key ''date_scraped'' @ str_int now @ '','' @ [CHR 0x0A]
        @ json_key ''content'' @ json_string content @ [CHR 0x0A] @ ''}''
      else if fmt = ''txt'' then content
      else if fmt = ''html'' then html_cleaned
      else content)"

text \<open>
  Reading a file opened in text mode translates \<open>\r\n\<close> and \<open>\r\<close> to \<open>\n\<close> (universal
  newlines); writing on a POSIX system stores the text as it is.
\<close>

fun universal_newlines :: "string \<Rightarrow> string" where
  "universal_newlines [] = []"
| "universal_newlines [c] = (if c = CHR 0x0D then [CHR 0x0A] else [c])"
| "universal_newlines (c # d # cs) =
     (if c = CHR 0x0D \<and> d = CHR 0x0A then CHR 0x0A # universal_newlines cs
      else if c = CHR 0x0D then CHR 0x0A # universal_newlines (d # cs)
      else c # universal_newlines (d # cs))"

definition unchanged :: "pylib \<Rightarrow> system \<Rightarrow> py_path \<Rightarrow> string \<Rightarrow> bool" where
  "unchanged L S out_path new_content =
     (case files S out_path of
        None \<Rightarrow> False
      | Some Unreadable \<Rightarrow> False
      | Some (Text stored) \<Rightarrow> hash_content L (universal_newlines stored) = hash_content L new_content)"

definition write_output :: "pylib \<Rightarrow> int \<Rightarrow> system \<Rightarrow> py_path \<Rightarrow> string \<Rightarrow> meta \<Rightarrow> string \<Rightarrow> string \<Rightarrow> bool \<Rightarrow> system" where
  "write_output L now S out_path content m fmt html_cleaned diff_mode =
     (let c = final_content now content m fmt html_cleaned
      in if diff_mode \<and> unchanged L S out_path c then S
         else S\<lparr>files := (files S)(out_path \<mapsto> Text c), writes := writes S @ [(out_path, c)]\<rparr>)"

section \<open>Robots policy\<close>

text \<open>
  \<open>urllib.robotparser.RobotFileParser\<close>, from CPython 3.11 (Lib/urllib/robotparser.py):
  the three attributes that \<open>can_fetch\<close> tests first, and the rules of a parsed file as
  the predicate they induce for the agent \<open>digit\<close>.  \<open>robots_response\<close> is what
  \<open>urlopen\<close> of the robots URL does: an \<open>HTTPError\<close> with its status, any other
  exception (while connecting, reading or decoding), or a body that parses to rules.
\<close>

datatype robots_response = HTTPError int | OtherException | Body "string \<Rightarrow> bool"

record robot_file_parser =
  disallow_all :: bool
  allow_all :: bool
  last_checked :: bool
  rules :: "string \<Rightarrow> bool"

definition RobotFileParser :: robot_file_parser where
  "RobotFileParser = \<lparr>disallow_all = False, allow_all = False, last_checked = False, rules = (\<lambda>_. True)\<rparr>"

text \<open>\<open>read\<close>; the second component tells whether the call raised.\<close>

definition read :: "robots_response \<Rightarrow> robot_file_parser \<Rightarrow> robot_file_parser \<times> bool" where
  "read r rp =
     (case r of
        HTTPError err_code \<Rightarrow>
          (if err_code \<in> {401, 403} then (rp\<lparr>disallow_all := True\<rparr>, False)
           else if err_code \<ge> 400 \<and> err_code < 500 then (rp\<lparr>allow_all := True\<rparr>, False)
           else (rp, False))
      | OtherException \<Rightarrow> (rp, True)
      | Body f \<Rightarrow> (rp\<lparr>last_checked := True, rules := f\<rparr>, False))"

definition can_fetch :: "robot_file_parser \<Rightarrow> string \<Rightarrow> bool" where
  "can_fetch rp url =
     (if disallow_all rp then False
      else if allow_all rp then True
      else if \<not> last_checked rp then False
      else rules rp url)"

section \<open>The world outside the process\<close>

record response =
  status_code :: int
  content_type :: string
  resp_text :: string

text \<open>
  \<open>http_get n url\<close> is the outcome of \<open>client.get(url)\<close> when \<open>n\<close> requests were issued
  before it, \<open>None\<close> when it raises.  \<open>robots_txt\<close> answers the robots URL, \<open>sitemap_urls\<close>
  is \<open>list(iter_sitemap_urls(seed))\<close>.  \<open>extractor\<close> gives the markdown, the title and the
  cleaned HTML that BeautifulSoup and html2text produce for a body; \<open>anchor_hrefs\<close> is
  \<open>a.get("href")\<close> for each anchor of the body, in document order.  \<open>clock n\<close> is
  \<open>int(time.time())\<close> after \<open>n\<close> requests.
\<close>

record world =
  http_get :: "nat \<Rightarrow> string \<Rightarrow> response option"
  robots_txt :: "string \<Rightarrow> robots_response"
  sitemap_urls :: "string \<Rightarrow> string list"
  extractor :: "string \<Rightarrow> string \<times> string \<times> string"
  anchor_hrefs :: "string \<Rightarrow> string option list"
  clock :: "nat \<Rightarrow> int"

definition extract_main_content :: "world \<Rightarrow> string \<Rightarrow> string \<Rightarrow> string \<times> meta \<times> string" where
  "extract_main_content W html page_url =
     (case extractor W html of
        (markdown, title, html_cleaned) \<Rightarrow> (markdown, [(''title'', title), (''url'', page_url)], html_cleaned))"

definition load_robots :: "pylib \<Rightarrow> world \<Rightarrow> string \<Rightarrow> error + robot_file_parser" where
  "load_robots L W seed =
     (case urljoin L seed ''/robots.txt'' of
        Inl e \<Rightarrow> Inl e
      | Inr robots_url \<Rightarrow>
          (case urlparse L robots_url of
             Inl e \<Rightarrow> Inr RobotFileParser
           | Inr p \<Rightarrow> Inr (fst (read (robots_txt W robots_url) RobotFileParser))))"

fun contains :: "string \<Rightarrow> string \<Rightarrow> bool" where
  "contains [] sub = (sub = [])"
| "contains (c # cs) sub = (prefix sub (c # cs) \<or> contains cs sub)"

definition is_html_page :: "response \<Rightarrow> bool" where
  "is_html_page resp = (\<not> (status_code resp \<noteq> 200 \<or> \<not> contains (content_type resp) ''html''))"

section \<open>Frontier Crawler\<close>

record config =
  max_pages :: int
  depth_limit :: int
  rps :: real
  include_rx :: "(string \<Rightarrow> bool) option"
  exclude_rx :: "(string \<Rightarrow> bool) option"
  save_html :: bool
  lang_hint :: string
  format :: string
  diff :: bool

text \<open>
  The state of one session: the variables of \<open>crawl_with_frontier\<close>, the system, the
  exception that ended the session if one did, and what the session did: the URLs
  that passed the visited test (\<open>dequeued\<close>), the URLs requested (\<open>fetched\<close>), the URL and
  body hash of every page handed to the Output Writer (\<open>output_records\<close>), the entries
  appended during link extraction (\<open>enqueued\<close>) and the number of \<open>time.sleep\<close> calls.
\<close>

record session =
  queue :: "(string \<times> int) list"
  seen :: "string set"
  saved_hashes :: "string set"
  pages :: int
  sys :: system
  raised :: "error option"
  dequeued :: "string list"
  fetched :: "string list"
  output_records :: "(string \<times> string) list"
  enqueued :: "(string \<times> int) list"
  sleeps :: nat

text \<open>The scope root \<open>base\<close> of line 588.\<close>

definition scope_root :: "pylib \<Rightarrow> string \<Rightarrow> error + string" where
  "scope_root L seed =
     (case urlparse L seed of
        Inl e \<Rightarrow> Inl e
      | Inr parsed_seed \<Rightarrow>
          Inr (scheme parsed_seed @ ''://'' @ netloc parsed_seed
               @ (if endswith (path parsed_seed) ''/'' then path parsed_seed else path parsed_seed @ ''/'')))"

text \<open>Lines 640 to 645, over the hrefs of the page.\<close>

fun enqueue_links :: "pylib \<Rightarrow> string \<Rightarrow> string \<Rightarrow> int \<Rightarrow> string option list \<Rightarrow> session \<Rightarrow> session" where
  "enqueue_links L base url depth [] s = s"
| "enqueue_links L base url depth (href # hrefs) s =
     (case normalize_url L url href of
        Inl e \<Rightarrow> s\<lparr>raised := Some e\<rparr>
      | Inr None \<Rightarrow> enqueue_links L base url depth hrefs s
      | Inr (Some nxt) \<Rightarrow>
          if nxt = [] then enqueue_links L base url depth hrefs s
          else (case same_scope L base nxt of
                  Inl e \<Rightarrow> s\<lparr>raised := Some e\<rparr>
                | Inr in_scope \<Rightarrow>
                    enqueue_links L base url depth hrefs
                      (if in_scope
                       then s\<lparr>queue := queue s @ [(nxt, depth + 1)], enqueued := enqueued s @ [(nxt, depth + 1)]\<rparr>
                       else s)))"

definition policy_check :: "robot_file_parser \<Rightarrow> config \<Rightarrow> string \<Rightarrow> bool" where
  "policy_check rp C url =
     (can_fetch rp url
      \<and> (case include_rx C of None \<Rightarrow> True | Some rx \<Rightarrow> rx url)
      \<and> (case exclude_rx C of None \<Rightarrow> True | Some rx \<Rightarrow> \<not> rx url))"

text \<open>Lines 627 to 647: a page whose body hash is new.\<close>

definition extract_and_write :: "pylib \<Rightarrow> world \<Rightarrow> config \<Rightarrow> py_path \<Rightarrow> string \<Rightarrow> string \<Rightarrow> int \<Rightarrow> string \<Rightarrow> session \<Rightarrow> session" where
  "extract_and_write L W C out_dir base url depth html s =
     (case extract_main_content W html url of
        (md, m, html_cleaned) \<Rightarrow>
          (case slugify_path L out_dir base url (lang_hint C) (format C) of
             Inl e \<Rightarrow> s\<lparr>raised := Some e\<rparr>
           | Inr out_path \<Rightarrow>
               (let s1 = s\<lparr>sys := write_output L (clock W (length (requests (sys s)))) (sys s) out_path md m
                                     (format C) html_cleaned (diff C),
                            saved_hashes := insert (hash_content L html) (saved_hashes s),
                            pages := pages s + 1,
                            output_records := output_records s @ [(url, hash_content L html)]\<rparr>;
                    s2 = (if depth_limit C = 0 \<or> depth < depth_limit C
                          then enqueue_links L base url depth (anchor_hrefs W html) s1 else s1)
                in if raised s2 = None then s2\<lparr>sleeps := sleeps s2 + 1\<rparr> else s2)))"

text \<open>Lines 612 to 625: the request and the tests on its response.\<close>

definition fetch :: "pylib \<Rightarrow> world \<Rightarrow> config \<Rightarrow> py_path \<Rightarrow> string \<Rightarrow> string \<Rightarrow> int \<Rightarrow> session \<Rightarrow> session" where
  "fetch L W C out_dir base url depth s =
     (let s1 = s\<lparr>sys := (sys s)\<lparr>requests := requests (sys s) @ [url]\<rparr>, fetched := fetched s @ [url]\<rparr>
      in case http_get W (length (requests (sys s))) url of
           None \<Rightarrow> s1
         | Some resp \<Rightarrow>
             if \<not> is_html_page resp then s1
             else if hash_content L (resp_text resp) \<in> saved_hashes s1 then s1
             else extract_and_write L W C out_dir base url depth (resp_text resp) s1)"

text \<open>One turn of the loop of line 600, for a non-empty queue.\<close>

definition crawl_step :: "pylib \<Rightarrow> world \<Rightarrow> config \<Rightarrow> py_path \<Rightarrow> string \<Rightarrow> robot_file_parser \<Rightarrow> session \<Rightarrow> session" where
  "crawl_step L W C out_dir base rp s =
     (case queue s of
        [] \<Rightarrow> s
      | (url, depth) # rest \<Rightarrow>
          if url \<in> seen s then s\<lparr>queue := rest\<rparr>
          else (let s1 = s\<lparr>queue := rest, seen := insert url (seen s), dequeued := dequeued s @ [url]\<rparr>
                in if \<not> policy_check rp C url then s1
                   else fetch L W C out_dir base url depth s1))"

definition running :: "config \<Rightarrow> session \<Rightarrow> bool" where
  "running C s = (queue s \<noteq> [] \<and> pages s < max_pages C \<and> raised s = None)"

function crawl_loop :: "pylib \<Rightarrow> world \<Rightarrow> config \<Rightarrow> py_path \<Rightarrow> string \<Rightarrow> robot_file_parser \<Rightarrow> session \<Rightarrow> session" where
  "crawl_loop L W C out_dir base rp s =
     (if running C s then crawl_loop L W C out_dir base rp (crawl_step L W C out_dir base rp s) else s)"
  by pat_completeness auto
termination
proof (relation "measures
    [\<lambda>(L, W, C, out_dir, base, rp, s). (case raised s of None \<Rightarrow> 1 | Some e \<Rightarrow> 0),
     \<lambda>(L, W, C, out_dir, base, rp, s). nat (max_pages C - pages s),
     \<lambda>(L, W, C, out_dir, base, rp, s). length (queue s)]")
  show "wf (measures
    [\<lambda>(L, W, C, out_dir, base, rp, s). (case raised s of None \<Rightarrow> 1 | Some e \<Rightarrow> 0),
     \<lambda>(L, W, C, out_dir, base, rp, s). nat (max_pages C - pages s),
     \<lambda>(L :: pylib, W :: world, C :: config, out_dir :: py_path, base :: string, rp :: robot_file_parser, s :: session).
        length (queue s)])"
    by simp
next
  fix L :: pylib and W :: world and C :: config and out_dir :: py_path and base :: string
    and rp :: robot_file_parser and s :: session
  assume run: "running C s"
  have links: "pages (enqueue_links L base u d hs t) = pages t" for u d hs t
    by (induction hs arbitrary: t) (auto split: sum.splits option.splits)
  obtain url depth rest where q: "queue s = (url, depth) # rest"
    using run by (cases "queue s") (auto simp: running_def)
  have r: "raised s = None" and p: "pages s < max_pages C"
    using run by (auto simp: running_def)
  let ?s' = "crawl_step L W C out_dir base rp s"
  have "raised ?s' \<noteq> None \<or> pages ?s' = pages s + 1
        \<or> (pages ?s' = pages s \<and> length (queue ?s') < length (queue s))"
    using q r
    by (auto simp: crawl_step_def fetch_def extract_and_write_def links Let_def
             split: option.splits sum.splits prod.splits)
  then show "((L, W, C, out_dir, base, rp, ?s'), (L, W, C, out_dir, base, rp, s)) \<in> measures
    [\<lambda>(L, W, C, out_dir, base, rp, s). (case raised s of None \<Rightarrow> 1 | Some e \<Rightarrow> 0),
     \<lambda>(L, W, C, out_dir, base, rp, s). nat (max_pages C - pages s),
     \<lambda>(L, W, C, out_dir, base, rp, s). length (queue s)]"
    using r p by (auto split: option.splits)
qed

definition new_session :: "system \<Rightarrow> session" where
  "new_session S = \<lparr>queue = [], seen = {}, saved_hashes = {}, pages = 0, sys = S, raised = None,
     dequeued = [], fetched = [], output_records = [], enqueued = [], sleeps = 0\<rparr>"

text \<open>\<open>crawl_with_frontier\<close>; the function's return value is \<open>pages\<close> of the final state.\<close>

definition crawl_with_frontier :: "pylib \<Rightarrow> world \<Rightarrow> system \<Rightarrow> string \<Rightarrow> py_path \<Rightarrow> config \<Rightarrow> session" where
  "crawl_with_frontier L W S seed out_dir C =
     (case scope_root L seed of
        Inl e \<Rightarrow> (new_session S)\<lparr>raised := Some e\<rparr>
      | Inr base \<Rightarrow>
          (case load_robots L W base of
             Inl e \<Rightarrow> (new_session S)\<lparr>raised := Some e\<rparr>
           | Inr rp \<Rightarrow>
               if rps C = 0 then (new_session S)\<lparr>raised := Some ZeroDivisionError\<rparr>
               else crawl_loop L W C out_dir base rp ((new_session S)\<lparr>queue := [(base, 0)]\<rparr>)))"

section \<open>Sitemap path\<close>

record sitemap_session =
  count :: int
  sm_sys :: system
  sm_raised :: "error option"

text \<open>The comprehension of line 668, whose test may raise.\<close>

fun in_scope_urls :: "pylib \<Rightarrow> string \<Rightarrow> string list \<Rightarrow> error + string list" where
  "in_scope_urls L seed [] = Inr []"
| "in_scope_urls L seed (url # all_urls) =
     (case same_scope L seed url of
        Inl e \<Rightarrow> Inl e
      | Inr ok \<Rightarrow>
          (case in_scope_urls L seed all_urls of
             Inl e \<Rightarrow> Inl e
           | Inr urls \<Rightarrow> Inr (if ok then url # urls else urls)))"

text \<open>The loop of lines 680 to 699.\<close>

fun sitemap_loop :: "pylib \<Rightarrow> world \<Rightarrow> config \<Rightarrow> py_path \<Rightarrow> string \<Rightarrow> string list \<Rightarrow> sitemap_session \<Rightarrow> sitemap_session" where
  "sitemap_loop L W C out_dir seed [] t = t"
| "sitemap_loop L W C out_dir seed (url # urls) t =
     (let t1 = t\<lparr>sm_sys := (sm_sys t)\<lparr>requests := requests (sm_sys t) @ [url]\<rparr>\<rparr>
      in case http_get W (length (requests (sm_sys t))) url of
           None \<Rightarrow> sitemap_loop L W C out_dir seed urls t1
         | Some resp \<Rightarrow>
             if \<not> is_html_page resp then sitemap_loop L W C out_dir seed urls t1
             else (case extract_main_content W (resp_text resp) url of
                     (md, m, html_cleaned) \<Rightarrow>
                       (case slugify_path L out_dir seed url (lang_hint C) (format C) of
                          Inl e \<Rightarrow> t1\<lparr>sm_raised := Some e\<rparr>
                        | Inr out_path \<Rightarrow>
                            sitemap_loop L W C out_dir seed urls
                              (t1\<lparr>sm_sys := write_output L (clock W (length (requests (sm_sys t1)))) (sm_sys t1)
                                               out_path md m (format C) html_cleaned (diff C),
                                   count := count t1 + 1\<rparr>))))"

definition crawl_sitemap_first :: "pylib \<Rightarrow> world \<Rightarrow> system \<Rightarrow> string \<Rightarrow> py_path \<Rightarrow> config \<Rightarrow> sitemap_session" where
  "crawl_sitemap_first L W S seed out_dir C =
     (let t0 = \<lparr>count = 0, sm_sys = S, sm_raised = None\<rparr>
      in if rps C = 0 then t0\<lparr>sm_raised := Some ZeroDivisionError\<rparr>
         else if sitemap_urls W seed = [] then t0
         else (case in_scope_urls L seed (sitemap_urls W seed) of
                 Inl e \<Rightarrow> t0\<lparr>sm_raised := Some e\<rparr>
               | Inr urls \<Rightarrow> if urls = [] then t0 else sitemap_loop L W C out_dir seed urls t0))"

section \<open>Harvest Orchestrator\<close>

record args =
  args_out :: string
  args_max_pages :: int
  args_depth :: int
  args_rate :: real
  args_include :: "string option"
  args_exclude :: "string option"
  args_sitemap_only :: bool
  args_save_html :: bool
  args_lang :: string
  args_format :: string
  args_diff :: bool

text \<open>The three phase lines that \<open>main\<close> prints for a seed, with the domain they name.\<close>

datatype phase = Trying_sitemap string | Exiting_sitemap_only string | Falling_back string

text \<open>
  What \<open>main\<close> does for one seed: the phase lines printed, the seed's \<open>written_count\<close>,
  the final state of \<open>crawl_with_frontier\<close> when it was called, the system afterwards and
  the exception that escaped, if any.
\<close>

record seed_run =
  printed :: "phase list"
  written_count :: int
  frontier :: "session option"
  sys_after :: system
  escaped :: "error option"

definition truthy :: "string option \<Rightarrow> bool" where
  "truthy a = (a \<noteq> None \<and> a \<noteq> Some [])"

definition compile_rx :: "pylib \<Rightarrow> string option \<Rightarrow> error + (string \<Rightarrow> bool) option" where
  "compile_rx L a =
     (case a of
        None \<Rightarrow> Inr None
      | Some pat \<Rightarrow>
          if pat = [] then Inr None
          else (case re_compile L pat of None \<Rightarrow> Inl RegexError | Some rx \<Rightarrow> Inr (Some rx)))"

definition Path :: "string \<Rightarrow> py_path" where
  "Path s = truediv [] s"

definition crawl_config :: "args \<Rightarrow> (string \<Rightarrow> bool) option \<Rightarrow> (string \<Rightarrow> bool) option \<Rightarrow> config" where
  "crawl_config A inc exc =
     \<lparr>max_pages = args_max_pages A, depth_limit = args_depth A, rps = args_rate A,
      include_rx = inc, exclude_rx = exc, save_html = args_save_html A,
      lang_hint = args_lang A, format = args_format A, diff = args_diff A\<rparr>"

text \<open>The body of the loop of line 715.\<close>

definition main_seed :: "pylib \<Rightarrow> world \<Rightarrow> args \<Rightarrow> py_path \<Rightarrow> system \<Rightarrow> string \<Rightarrow> seed_run" where
  "main_seed L W A out_dir S seed =
     (let stopped = (\<lambda>e. \<lparr>printed = [], written_count = 0, frontier = None, sys_after = S, escaped = Some e\<rparr>)
      in case urlparse L seed of
           Inl e \<Rightarrow> stopped e
         | Inr parsed \<Rightarrow>
             (let domain = (if netloc parsed \<noteq> [] then netloc parsed else ''unknown'');
                  out_subdir = truediv out_dir domain
              in case compile_rx L (args_include A) of
                   Inl e \<Rightarrow> stopped e
                 | Inr inc \<Rightarrow>
                     (case compile_rx L (args_exclude A) of
                        Inl e \<Rightarrow> stopped e
                      | Inr exc \<Rightarrow>
                          if args_sitemap_only A \<and> \<not> truthy (args_include A) \<and> \<not> truthy (args_exclude A) then
                            (let t = crawl_sitemap_first L W S seed out_subdir (crawl_config A inc exc)
                             in if sm_raised t \<noteq> None then
                                  \<lparr>printed = [Trying_sitemap domain], written_count = 0, frontier = None,
                                   sys_after = sm_sys t, escaped = sm_raised t\<rparr>
                                else if count t > 0 then
                                  \<lparr>printed = [Trying_sitemap domain], written_count = count t, frontier = None,
                                   sys_after = sm_sys t, escaped = None\<rparr>
                                else
                                  \<lparr>printed = [Trying_sitemap domain, Exiting_sitemap_only domain], written_count = 0,
                                   frontier = None, sys_after = sm_sys t, escaped = None\<rparr>)
                          else
                            (let s = crawl_with_frontier L W S seed out_subdir (crawl_config A inc exc)
                             in \<lparr>printed = [Falling_back domain], written_count = pages s, frontier = Some s,
                                 sys_after = sys s, escaped = raised s\<rparr>))))"

text \<open>The loop of line 715: the runs of the seeds in order, up to an escaped exception.\<close>

fun main_loop :: "pylib \<Rightarrow> world \<Rightarrow> args \<Rightarrow> py_path \<Rightarrow> system \<Rightarrow> string list \<Rightarrow> seed_run list" where
  "main_loop L W A out_dir S [] = []"
| "main_loop L W A out_dir S (seed # urls) =
     (let r = main_seed L W A out_dir S seed
      in if escaped r \<noteq> None then [r] else r # main_loop L W A out_dir (sys_after r) urls)"

definition main :: "pylib \<Rightarrow> world \<Rightarrow> args \<Rightarrow> string list \<Rightarrow> system \<Rightarrow> seed_run list" where
  "main L W A urls S = main_loop L W A (Path (args_out A)) S urls"

definition total_written :: "seed_run list \<Rightarrow> int" where
  "total_written rs = sum_list (map written_count (filter (\<lambda>r. escaped r = None) rs))"

section \<open>Fenced code blocks of the Content Extractor\<close>

text \<open>
  A \<open>pre\<close> element as lines 389 to 442 read it: the \<open>class\<close> attribute and \<open>get_text(" ")\<close>
  of the element and of its first \<open>code\<close> descendant, when there is one.
\<close>

record tag =
  class_attr :: "string list option"
  get_text :: string

record pre_block =
  pre_tag :: tag
  code_tag :: "tag option"

definition bare_languages :: "string list" where
  "bare_languages = [''bash'', ''shell'', ''sh'', ''nix'', ''json'', ''yaml'', ''toml'', ''python'', ''js'', ''ts'']"

definition block_classes :: "pre_block \<Rightarrow> string list" where
  "block_classes b =
     (case code_tag b of
        Some c \<Rightarrow>
          (case class_attr c of
             Some cs \<Rightarrow> cs
           | None \<Rightarrow> (case class_attr (pre_tag b) of Some cs \<Rightarrow> cs | None \<Rightarrow> []))
      | None \<Rightarrow> (case class_attr (pre_tag b) of Some cs \<Rightarrow> cs | None \<Rightarrow> []))"

fun detect_lang :: "string \<Rightarrow> string list \<Rightarrow> string" where
  "detect_lang lang [] = lang"
| "detect_lang lang (c # cs) =
     (if startswith c ''language-'' then drop 9 c
      else if c \<in> set bare_languages then detect_lang c cs
      else detect_lang lang cs)"

definition line_break :: "char \<Rightarrow> bool" where
  "line_break c = (char_code c \<in> {10, 11, 12, 13, 28, 29, 30, 133})"

fun splitlines_from :: "string \<Rightarrow> string \<Rightarrow> string list" where
  "splitlines_from cur [] = (if cur = [] then [] else [rev cur])"
| "splitlines_from cur [c] = (if line_break c then [rev cur] else [rev (c # cur)])"
| "splitlines_from cur (c # d # cs) =
     (if c = CHR 0x0D \<and> d = CHR 0x0A then rev cur # splitlines_from [] cs
      else if line_break c then rev cur # splitlines_from [] (d # cs)
      else splitlines_from (c # cur) (d # cs))"

definition splitlines :: "string \<Rightarrow> string list" where
  "splitlines s = splitlines_from [] s"

definition lstrip :: "string \<Rightarrow> string" where
  "lstrip s = dropWhile is_space s"

definition rstrip :: "string \<Rightarrow> string" where
  "rstrip s = rev (dropWhile is_space (rev s))"

definition strip :: "string \<Rightarrow> string" where
  "strip s = lstrip (rstrip s)"

text \<open>\<open>re.fullmatch(r"\s*\d{1,3}\s*", line)\<close>.\<close>

definition line_number_only :: "string \<Rightarrow> bool" where
  "line_number_only line =
     (let t = dropWhile is_space line; ds = takeWhile is_digit t
      in 1 \<le> length ds \<and> length ds \<le> 3 \<and> list_all is_space (dropWhile is_digit t))"

text \<open>The character class of line 428, as far as its members lie below 256.\<close>

definition glyph :: "char \<Rightarrow> bool" where
  "glyph c = (is_space c \<or> c \<in> set ''>`~/|:_-'' \<or> c = CHR 0x5C \<or> char_code c = 183)"

definition glyph_only :: "string \<Rightarrow> bool" where
  "glyph_only line = (line \<noteq> [] \<and> list_all glyph line)"

fun clean_lines :: "string list \<Rightarrow> string list" where
  "clean_lines [] = []"
| "clean_lines [l] = (if line_number_only (rstrip l) then [] else [rstrip l])"
| "clean_lines (l # n # ls) =
     (if line_number_only (rstrip l) then clean_lines (n # ls)
      else if glyph_only (rstrip l) then rstrip (strip (rstrip l) @ '' '' @ lstrip n) # clean_lines ls
      else rstrip l # clean_lines (n # ls))"

definition code_text :: "pre_block \<Rightarrow> string" where
  "code_text b =
     strip_chars [CHR 0x0A]
       (join [CHR 0x0A]
          (clean_lines (splitlines (get_text (case code_tag b of Some c \<Rightarrow> c | None \<Rightarrow> pre_tag b)))))"

definition fenced :: "pre_block \<Rightarrow> string" where
  "fenced b =
     [CHR 0x0A, CHR 0x0A] @ ''```'' @ detect_lang '''' (block_classes b) @ [CHR 0x0A]
     @ code_text b @ [CHR 0x0A] @ ''```'' @ [CHR 0x0A, CHR 0x0A]"

definition placeholder :: "nat \<Rightarrow> string" where
  "placeholder fence_idx = ''WEB2SCRAP_FENCE_'' @ decimal fence_idx"

text \<open>The dictionary \<open>fence_map\<close> after the loop of line 389, in insertion order.\<close>

definition fence_map :: "pre_block list \<Rightarrow> (string \<times> string) list" where
  "fence_map pres = map (\<lambda>(fence_idx, b). (placeholder fence_idx, fenced b)) (enumerate 0 pres)"

text \<open>Lines 457 and 458.\<close>

definition restore_fences :: "(string \<times> string) list \<Rightarrow> string \<Rightarrow> string" where
  "restore_fences fm markdown = foldl (\<lambda>md (key, f). replace key f md) markdown fm"

section \<open>A library instance for closed statements\<close>

text \<open>
  Where a closed statement needs the library: no bracketed host is accepted, the
  digest is the text itself, no pattern compiles, and \<open>urljoin0\<close> resolves the two kinds
  of reference the examples use, as the library does: a path that starts with one
  slash, against a base with a host, and an absolute URL with a host.
\<close>

definition lib_parse_only :: pylib where
  "lib_parse_only = \<lparr>check_bracketed_host = (\<lambda>_. False), urljoin = (\<lambda>b h. Inl ValueError),
     sha1_hexdigest = (\<lambda>s. s), re_compile = (\<lambda>_. None)\<rparr>"

definition urljoin0 :: "string \<Rightarrow> string \<Rightarrow> error + string" where
  "urljoin0 base url =
     (if take 1 url = ''/'' \<and> take 2 url \<noteq> ''//'' then
        (case urlparse lib_parse_only base of
           Inl e \<Rightarrow> Inl e
         | Inr b \<Rightarrow> Inr (scheme b @ ''://'' @ netloc b @ url))
      else Inr url)"

definition lib0 :: pylib where
  "lib0 = lib_parse_only\<lparr>urljoin := urljoin0\<rparr>"

text \<open>A system with no file, before any write or request.\<close>

definition empty_system :: system where
  "empty_system = \<lparr>files = (\<lambda>_. None), writes = [], requests = []\<rparr>"

section \<open>An example site\<close>

text \<open>
  A site for closed statements: every request is answered with the same HTML page,
  whose anchors are listed in \<open>anchor_hrefs\<close>; the robots file allows everything; there
  is no sitemap.  The crawl is configured for plain text output in diff mode.
\<close>

definition example_world :: world where
  "example_world =
     \<lparr>http_get = (\<lambda>n url. Some \<lparr>status_code = 200, content_type = ''text/html; charset=utf-8'',
                                resp_text = ''<html>''\<rparr>),
      robots_txt = (\<lambda>robots_url. Body (\<lambda>url. True)),
      sitemap_urls = (\<lambda>seed. []),
      extractor = (\<lambda>html. (''hi'', ''Title'', ''<p>hi</p>'')),
      anchor_hrefs = (\<lambda>html. [Some ''https://x/docs/a#top'', Some ''mailto:me@x'', None, Some '''',
                               Some ''https://x/other'', Some ''https://X/docs/b'', Some ''https://x/docs/a'']),
      clock = (\<lambda>n. int n)\<rparr>"

definition example_config :: config where
  "example_config =
     \<lparr>max_pages = 10, depth_limit = 0, rps = 1, include_rx = None, exclude_rx = None,
      save_html = False, lang_hint = '''', format = ''txt'', diff = True\<rparr>"

text \<open>A system in which the text \<open>hi\<close> is already stored under \<open>out/docs/index.txt\<close>.\<close>

definition stored_system :: system where
  "stored_system = empty_system\<lparr>files := (files empty_system)([''out'', ''docs'', ''index.txt''] \<mapsto> Text ''hi'')\<rparr>"

text \<open>What a session leaves to observe, apart from the stored files.\<close>

definition session_log :: "session \<Rightarrow> int \<times> error option \<times> string list \<times> string list \<times> (string \<times> string) list
    \<times> (string \<times> int) list \<times> (py_path \<times> string) list" where
  "session_log s = (pages s, raised s, dequeued s, fetched s, output_records s, enqueued s, writes (sys s))"

text \<open>The command line \<open>--url ... --out out --format txt --diff --sitemap-only\<close>, other options at
  their defaults.\<close>

definition example_args :: args where
  "example_args =
     \<lparr>args_out = ''out'', args_max_pages = 10000, args_depth = 0, args_rate = 3 / 2,
      args_include = None, args_exclude = None, args_sitemap_only = True, args_save_html = False,
      args_lang = '''', args_format = ''txt'', args_diff = True\<rparr>"

section \<open>Example code blocks\<close>

text \<open>
  The block \<open><pre><code class="language-python">\<close> with the text \<open>foo\<close>, newline, two spaces,
  \<open>bar\<close>; a block \<open><pre>x</pre>\<close>; and a page whose main content holds ten of the second
  followed by the first.
\<close>

definition python_block :: pre_block where
  "python_block =
     \<lparr>pre_tag = \<lparr>class_attr = None, get_text = ''foo'' @ [CHR 0x0A] @ ''  bar''\<rparr>,
      code_tag = Some \<lparr>class_attr = Some [''language-python''], get_text = ''foo'' @ [CHR 0x0A] @ ''  bar''\<rparr>\<rparr>"

definition plain_block :: pre_block where
  "plain_block = \<lparr>pre_tag = \<lparr>class_attr = None, get_text = ''x''\<rparr>, code_tag = None\<rparr>"

definition eleven_blocks :: "pre_block list" where
  "eleven_blocks = replicate 10 plain_block @ [python_block]"


section \<open>Path Resolver: properties\<close>

lemma endswith_append_same: "endswith (q @ s) s"
  by (simp add: endswith_def suffix_def)

lemma endswith_append_len: "length t = length s \<Longrightarrow> endswith (q @ s) t = (t = s)"
  by (auto simp: endswith_def suffix_def)

lemma index_leaf_slash: "index_leaf (q @ ''/'') = q @ ''/index''"
proof -
  have a: "endswith (q @ ''/'') ''/''"
    by (rule endswith_append_same)
  have b: "\<not> endswith ((q @ ''/'') @ ''index'') ''.html''"
    using endswith_append_len[of "''.html''" "''index''" "q @ ''/''"] by simp
  show ?thesis
    using a b by (simp add: index_leaf_def)
qed

lemma index_leaf_index: "index_leaf (q @ ''/index'') = q @ ''/index''"
proof -
  have a: "\<not> endswith (q @ ''/index'') ''/''"
    using endswith_append_len[of "''/''" "''x''" "q @ ''/inde''"] by simp
  have b: "\<not> endswith (q @ ''/index'') ''.html''"
    using endswith_append_len[of "''.html''" "''index''" "q @ ''/''"] by simp
  show ?thesis
    using a b by (simp add: index_leaf_def)
qed

lemma index_leaf_index_html: "index_leaf (q @ ''/index.html'') = q @ ''/index''"
proof -
  have a: "\<not> endswith (q @ ''/index.html'') ''/''"
    using endswith_append_len[of "''/''" "''l''" "q @ ''/index.htm''"] by simp
  have b: "endswith (q @ ''/index.html'') ''.html''"
    using endswith_append_len[of "''.html''" "''.html''" "q @ ''/index''"] by simp
  show ?thesis
    using a b by (simp add: index_leaf_def)
qed

lemma index_leaf_plain:
  "p \<noteq> [] \<Longrightarrow> \<not> endswith p ''/'' \<Longrightarrow> \<not> endswith p ''.html'' \<Longrightarrow> index_leaf p = p"
  by (simp add: index_leaf_def)

lemma flatten_index_folder:
  "flatten_index rp (q @ ''/index'') =
     (if q = rstrip_chars ''/'' rp \<or> q = rstrip_chars ''/'' rp @ ''/'' then q @ ''/index''
      else if q = [] \<or> q = ''/'' then ''index'' else q)"
  using endswith_append_same[of q "''/index''"] by (simp add: flatten_index_def)

lemma flatten_index_plain: "\<not> endswith p ''/index'' \<Longrightarrow> flatten_index rp p = p"
  by (simp add: flatten_index_def)

text \<open>
  C2, as stated, at the example of the specification: were the page path taken relative
  to the scope root \<open>https://x/docs/\<close>, the page \<open>https://x/docs/guide/index.html\<close> would
  resolve to \<open>out/guide.md\<close>.  It resolves to \<open>out/docs/guide.md\<close>: the root's own folder
  is part of the result.
\<close>

theorem slugify_path_relative_counterexample:
  "slugify_path lib0 [''out''] ''https://x/docs/'' ''https://x/docs/guide/index.html'' '''' ''md''
     = Inr [''out'', ''docs'', ''guide.md'']
   \<and> slugify_path lib0 [''out''] ''https://x/docs/'' ''https://x/docs/guide/index.html'' '''' ''md''
     \<noteq> Inr [''out'', ''guide.md'']"
  by code_simp

text \<open>
  C2, amended.  The path resolver works on the full path component of the page URL
  and never strips the scope root from it; the root URL only decides which trailing
  \<open>/index\<close> is kept.  For a page path \<open>q/\<close>, \<open>q/index\<close> or \<open>q/index.html\<close> the result
  is the sanitised \<open>q\<close> (the folder as leaf), except that \<open>q/index\<close> is kept when \<open>q\<close> is
  the root's path without its trailing slashes, or that path followed by one slash, and that an
  empty \<open>q\<close> or \<open>/\<close> gives \<open>index\<close>.  For any other non-empty page path that does not end in
  \<open>.html\<close> the result is the sanitised full path.  The format extension is appended.  With
  root \<open>https://x/docs/\<close> and format \<open>md\<close>, page \<open>https://x/docs/guide/index.html\<close> resolves
  to \<open>docs/guide.md\<close> (leaf \<open>guide.md\<close>) and page \<open>https://x/docs/index.html\<close> to
  \<open>docs/index.md\<close> (leaf \<open>index.md\<close>), under any output root.
\<close>

theorem slugify_path_full_path:
  assumes "urlparse L root_url = Inr a" and "urlparse L page_url = Inr b"
  shows "(path b \<in> {q @ ''/'', q @ ''/index'', q @ ''/index.html''} \<longrightarrow>
            slugify_path L base root_url page_url lang fmt =
              Inr (truediv base (strip_chars ''/'' (sanitize
                (if q = rstrip_chars ''/'' (path a) \<or> q = rstrip_chars ''/'' (path a) @ ''/'' then q @ ''/index''
                 else if q = [] \<or> q = ''/'' then ''index'' else q)) @ format_ext fmt)))
       \<and> (path b \<noteq> [] \<and> \<not> endswith (path b) ''/'' \<and> \<not> endswith (path b) ''.html''
            \<and> \<not> endswith (path b) ''/index'' \<longrightarrow>
            slugify_path L base root_url page_url lang fmt =
              Inr (truediv base (strip_chars ''/'' (sanitize (path b)) @ format_ext fmt)))
       \<and> slugify_path L base ''https://x/docs/'' ''https://x/docs/guide/index.html'' lang ''md''
            = Inr (base @ [''docs'', ''guide.md''])
       \<and> slugify_path L base ''https://x/docs/'' ''https://x/docs/index.html'' lang ''md''
            = Inr (base @ [''docs'', ''index.md''])"
proof (intro conjI impI)
  assume "path b \<in> {q @ ''/'', q @ ''/index'', q @ ''/index.html''}"
  then have "index_leaf (path b) = q @ ''/index''"
    using index_leaf_slash[of q] index_leaf_index[of q] index_leaf_index_html[of q] by auto
  then show "slugify_path L base root_url page_url lang fmt =
              Inr (truediv base (strip_chars ''/'' (sanitize
                (if q = rstrip_chars ''/'' (path a) \<or> q = rstrip_chars ''/'' (path a) @ ''/'' then q @ ''/index''
                 else if q = [] \<or> q = ''/'' then ''index'' else q)) @ format_ext fmt))"
    using assms flatten_index_folder[of "path a" q] by (simp add: slugify_path_def)
next
  assume "path b \<noteq> [] \<and> \<not> endswith (path b) ''/'' \<and> \<not> endswith (path b) ''.html''
            \<and> \<not> endswith (path b) ''/index''"
  then show "slugify_path L base root_url page_url lang fmt =
              Inr (truediv base (strip_chars ''/'' (sanitize (path b)) @ format_ext fmt))"
    using assms by (simp add: slugify_path_def index_leaf_plain flatten_index_plain)
next
  show "slugify_path L base ''https://x/docs/'' ''https://x/docs/guide/index.html'' lang ''md''
            = Inr (base @ [''docs'', ''guide.md''])"
    by code_simp
next
  show "slugify_path L base ''https://x/docs/'' ''https://x/docs/index.html'' lang ''md''
            = Inr (base @ [''docs'', ''index.md''])"
    by code_simp
qed

text \<open>
  The amended C2 at root \<open>https://x/docs/\<close>: the folder index \<open>/docs/guide/index.html\<close>
  (first rule, \<open>q = /docs/guide\<close>) and the plain page \<open>/docs/a.b\<close> (second rule).
\<close>

theorem slugify_path_full_path_witness:
  "urlparse lib0 ''https://x/docs/''
     = Inr \<lparr>scheme = ''https'', netloc = ''x'', path = ''/docs/'', params = '''', query = '''', fragment = ''''\<rparr>
   \<and> urlparse lib0 ''https://x/docs/guide/index.html''
     = Inr \<lparr>scheme = ''https'', netloc = ''x'', path = ''/docs/guide'' @ ''/index.html'', params = '''',
            query = '''', fragment = ''''\<rparr>
   \<and> slugify_path lib0 [''out''] ''https://x/docs/'' ''https://x/docs/guide/index.html'' '''' ''md''
     = Inr [''out'', ''docs'', ''guide.md'']
   \<and> urlparse lib0 ''https://x/docs/a.b''
     = Inr \<lparr>scheme = ''https'', netloc = ''x'', path = ''/docs/a.b'', params = '''', query = '''', fragment = ''''\<rparr>
   \<and> ''/docs/a.b'' \<noteq> [] \<and> \<not> endswith ''/docs/a.b'' ''/'' \<and> \<not> endswith ''/docs/a.b'' ''.html''
   \<and> \<not> endswith ''/docs/a.b'' ''/index''
   \<and> slugify_path lib0 [''out''] ''https://x/docs/'' ''https://x/docs/a.b'' '''' ''md''
     = Inr [''out'', ''docs'', ''a-b.md'']"
proof -
  let ?a = "\<lparr>scheme = ''https'', netloc = ''x'', path = ''/docs/'', params = '''', query = '''', fragment = ''''\<rparr>"
  let ?b = "\<lparr>scheme = ''https'', netloc = ''x'', path = ''/docs/guide'' @ ''/index.html'', params = '''',
             query = '''', fragment = ''''\<rparr>"
  let ?c = "\<lparr>scheme = ''https'', netloc = ''x'', path = ''/docs/a.b'', params = '''', query = '''', fragment = ''''\<rparr>"
  have a: "urlparse lib0 ''https://x/docs/'' = Inr ?a"
    by code_simp
  have b: "urlparse lib0 ''https://x/docs/guide/index.html'' = Inr ?b"
    by code_simp
  have c: "urlparse lib0 ''https://x/docs/a.b'' = Inr ?c"
    by code_simp
  have pc: "''/docs/a.b'' \<noteq> [] \<and> \<not> endswith ''/docs/a.b'' ''/'' \<and> \<not> endswith ''/docs/a.b'' ''.html''
            \<and> \<not> endswith ''/docs/a.b'' ''/index''"
    by code_simp
  have r1: "truediv [''out''] (strip_chars ''/'' (sanitize
              (if ''/docs/guide'' = rstrip_chars ''/'' ''/docs/'' \<or> ''/docs/guide'' = rstrip_chars ''/'' ''/docs/'' @ ''/''
               then ''/docs/guide'' @ ''/index''
               else if ''/docs/guide'' = [] \<or> ''/docs/guide'' = ''/'' then ''index'' else ''/docs/guide''))
              @ format_ext ''md'') = [''out'', ''docs'', ''guide.md'']"
    by code_simp
  have r2: "truediv [''out''] (strip_chars ''/'' (sanitize ''/docs/a.b'') @ format_ext ''md'') = [''out'', ''docs'', ''a-b.md'']"
    by code_simp
  have g: "slugify_path lib0 [''out''] ''https://x/docs/'' ''https://x/docs/guide/index.html'' '''' ''md''
             = Inr [''out'', ''docs'', ''guide.md'']"
    using slugify_path_full_path[OF a b, of "''/docs/guide''" "[''out'']" "''''" "''md''"] r1 by simp
  have h: "slugify_path lib0 [''out''] ''https://x/docs/'' ''https://x/docs/a.b'' '''' ''md''
             = Inr [''out'', ''docs'', ''a-b.md'']"
    using slugify_path_full_path[OF a c, of "''/docs/guide''" "[''out'']" "''''" "''md''"] pc r2 by simp
  show ?thesis
    using a b c pc g h by simp
qed

section \<open>Output Writer: properties\<close>

lemma universal_newlines_id: "CHR 0x0D \<notin> set s \<Longrightarrow> universal_newlines s = s"
  by (induction s rule: universal_newlines.induct) auto

lemma final_content_clock:
  "(fmt = ''md'' \<or> fmt = ''json'' \<longrightarrow> t1 = t2) \<Longrightarrow>
     final_content t1 content m fmt html_cleaned = final_content t2 content m fmt html_cleaned"
  by (auto simp: final_content_def)

lemma write_output_no_diff:
  "write_output L now S p content m fmt h False =
     S\<lparr>files := (files S)(p \<mapsto> Text (final_content now content m fmt h)),
       writes := writes S @ [(p, final_content now content m fmt h)]\<rparr>"
  by (simp add: write_output_def Let_def)

lemma unchanged_after_write:
  "CHR 0x0D \<notin> set c \<Longrightarrow> unchanged L (S\<lparr>files := (files S)(p \<mapsto> Text c), writes := ws\<rparr>) p c"
  by (simp add: unchanged_def universal_newlines_id)

lemma write_output_diff_again:
  assumes "CHR 0x0D \<notin> set (final_content now content m fmt h)"
  shows "write_output L now (write_output L now S p content m fmt h True) p content m fmt h True
           = write_output L now S p content m fmt h True"
proof (cases "unchanged L S p (final_content now content m fmt h)")
  case True
  then show ?thesis
    by (simp add: write_output_def)
next
  case False
  then show ?thesis
    using unchanged_after_write[OF assms] by (simp add: write_output_def)
qed

text \<open>
  C3, as stated, on an empty store with the identity digest.  In format \<open>md\<close>, a first
  run at clock 0 and a second at clock 1 write different texts to the same path, and
  with diff mode the second run writes again.  In format \<open>txt\<close>, a text that holds a
  carriage return is written again by the second run in diff mode, at the same clock.
\<close>

theorem write_output_twice_counterexample:
  "writes (write_output lib0 1 (write_output lib0 0 empty_system [''out'', ''index.md'']
             ''body'' [(''title'', ''T''), (''url'', ''https://x/'')] ''md'' '''' False)
           [''out'', ''index.md''] ''body'' [(''title'', ''T''), (''url'', ''https://x/'')] ''md'' '''' False)
     = [([''out'', ''index.md''], ''---'' @ [CHR 0x0A] @ ''title: T'' @ [CHR 0x0A] @ ''url: https://x/'' @ [CHR 0x0A]
                                   @ ''date_scraped: 0'' @ [CHR 0x0A] @ ''---'' @ [CHR 0x0A] @ ''body''),
        ([''out'', ''index.md''], ''---'' @ [CHR 0x0A] @ ''title: T'' @ [CHR 0x0A] @ ''url: https://x/'' @ [CHR 0x0A]
                                   @ ''date_scraped: 1'' @ [CHR 0x0A] @ ''---'' @ [CHR 0x0A] @ ''body'')]
   \<and> length (writes (write_output lib0 1 (write_output lib0 0 empty_system [''out'', ''index.md'']
             ''body'' [(''title'', ''T''), (''url'', ''https://x/'')] ''md'' '''' True)
           [''out'', ''index.md''] ''body'' [(''title'', ''T''), (''url'', ''https://x/'')] ''md'' '''' True)) = 2
   \<and> length (writes (write_output lib0 0 (write_output lib0 0 empty_system [''out'', ''index.txt'']
             (''a'' @ [CHR 0x0D, CHR 0x0A] @ ''b'') [(''title'', ''T''), (''url'', ''https://x/'')] ''txt'' '''' True)
           [''out'', ''index.txt''] (''a'' @ [CHR 0x0D, CHR 0x0A] @ ''b'') [(''title'', ''T''), (''url'', ''https://x/'')]
             ''txt'' '''' True)) = 2"
  by code_simp

text \<open>
  C3, amended.  For every page and every output format, two runs of the Output Writer
  on the same extracted page and path, in which the serialisation does not depend on
  the clock (a format other than \<open>md\<close> and \<open>json\<close>, or both runs within the same second),
  are idempotent: without diff mode both runs write the same text to the same path, and
  with diff mode, when the serialised text holds no carriage return, the second run
  writes nothing and leaves the system as the first run left it.
\<close>

theorem write_output_twice:
  assumes "fmt = ''md'' \<or> fmt = ''json'' \<longrightarrow> t1 = t2"
  shows "(writes (write_output L t2 (write_output L t1 S p content m fmt h False) p content m fmt h False)
            = writes S @ [(p, final_content t1 content m fmt h), (p, final_content t1 content m fmt h)])
       \<and> (CHR 0x0D \<notin> set (final_content t1 content m fmt h) \<longrightarrow>
            write_output L t2 (write_output L t1 S p content m fmt h True) p content m fmt h True
              = write_output L t1 S p content m fmt h True)"
proof -
  have c: "final_content t2 content m fmt h = final_content t1 content m fmt h"
    using assms final_content_clock[of fmt t2 t1 content m h] by auto
  have w: "write_output L t2 S' p content m fmt h d = write_output L t1 S' p content m fmt h d" for S' d
    by (simp add: write_output_def c)
  show ?thesis
    using write_output_diff_again[of t1 content m fmt h L S p]
    by (simp add: w c write_output_no_diff)
qed

text \<open>
  The amended C3 in format \<open>md\<close> with both runs at clock 5, on an empty store: without
  diff mode two equal writes, with diff mode one write.
\<close>

theorem write_output_twice_witness:
  "CHR 0x0D \<notin> set (final_content 5 ''body'' [(''title'', ''T''), (''url'', ''https://x/'')] ''md'' '''')
   \<and> writes (write_output lib0 5 (write_output lib0 5 empty_system [''out'', ''index.md'']
             ''body'' [(''title'', ''T''), (''url'', ''https://x/'')] ''md'' '''' False)
           [''out'', ''index.md''] ''body'' [(''title'', ''T''), (''url'', ''https://x/'')] ''md'' '''' False)
     = [([''out'', ''index.md''], final_content 5 ''body'' [(''title'', ''T''), (''url'', ''https://x/'')] ''md'' ''''),
        ([''out'', ''index.md''], final_content 5 ''body'' [(''title'', ''T''), (''url'', ''https://x/'')] ''md'' '''')]
   \<and> writes (write_output lib0 5 (write_output lib0 5 empty_system [''out'', ''index.md'']
             ''body'' [(''title'', ''T''), (''url'', ''https://x/'')] ''md'' '''' True)
           [''out'', ''index.md''] ''body'' [(''title'', ''T''), (''url'', ''https://x/'')] ''md'' '''' True)
     = [([''out'', ''index.md''], final_content 5 ''body'' [(''title'', ''T''), (''url'', ''https://x/'')] ''md'' '''')]"
proof -
  have h: "''md'' = ''md'' \<or> ''md'' = ''json'' \<longrightarrow> (5::int) = 5"
    by simp
  have cr: "CHR 0x0D \<notin> set (final_content 5 ''body'' [(''title'', ''T''), (''url'', ''https://x/'')] ''md'' '''')"
    by code_simp
  have first: "writes (write_output lib0 5 empty_system [''out'', ''index.md'']
             ''body'' [(''title'', ''T''), (''url'', ''https://x/'')] ''md'' '''' True)
     = [([''out'', ''index.md''], final_content 5 ''body'' [(''title'', ''T''), (''url'', ''https://x/'')] ''md'' '''')]"
    by code_simp
  have e: "writes empty_system = []"
    by (simp add: empty_system_def)
  show ?thesis
    using write_output_twice[OF h, of lib0 empty_system "[''out'', ''index.md'']" "''body''"
        "[(''title'', ''T''), (''url'', ''https://x/'')]" "''''"] cr first e
    by simp
qed

section \<open>Frontier Crawler: properties\<close>

text \<open>A property that holds at the start and that every turn of the loop keeps holds at the end.\<close>

lemma crawl_loop_invariant:
  assumes "P s" and "\<And>t. P t \<Longrightarrow> running C t \<Longrightarrow> P (crawl_step L W C out_dir base rp t)"
  shows "P (crawl_loop L W C out_dir base rp s)"
  using assms
proof (induction L W C out_dir base rp s rule: crawl_loop.induct)
  case (1 L W C out_dir base rp s)
  show ?case
  proof (cases "running C s")
    case True
    then have "P (crawl_step L W C out_dir base rp s)"
      using 1 by blast
    then have "P (crawl_loop L W C out_dir base rp (crawl_step L W C out_dir base rp s))"
      using 1 True by blast
    then show ?thesis
      using True by (subst crawl_loop.simps) simp
  next
    case False
    then show ?thesis
      using 1 by (subst crawl_loop.simps) simp
  qed
qed

text \<open>Link extraction appends the same entries to the queue and to the log, and may stop on
  an exception; each entry comes from \<open>normalize_url\<close> and passed \<open>same_scope\<close>.\<close>

lemma enqueue_links_shape:
  "\<exists>X R. enqueue_links L base url depth hrefs s
            = s\<lparr>queue := queue s @ X, enqueued := enqueued s @ X, raised := R\<rparr>
         \<and> (\<forall>e \<in> set X. snd e = depth + 1 \<and> same_scope L base (fst e) = Inr True
               \<and> (\<exists>h. normalize_url L url h = Inr (Some (fst e))))"
proof (induction hrefs arbitrary: s)
  case Nil
  have "enqueue_links L base url depth [] s
          = s\<lparr>queue := queue s @ [], enqueued := enqueued s @ [], raised := raised s\<rparr>
        \<and> (\<forall>e \<in> set []. snd e = depth + 1 \<and> same_scope L base (fst e) = Inr True
               \<and> (\<exists>h. normalize_url L url h = Inr (Some (fst e))))"
    by simp
  then show ?case
    by blast
next
  case (Cons h hs)
  have stop: "\<exists>X R. s\<lparr>raised := Some e\<rparr>
            = s\<lparr>queue := queue s @ X, enqueued := enqueued s @ X, raised := R\<rparr>
         \<and> (\<forall>e \<in> set X. snd e = depth + 1 \<and> same_scope L base (fst e) = Inr True
               \<and> (\<exists>h. normalize_url L url h = Inr (Some (fst e))))" for e
    by (rule exI[where x="[]"], rule exI[where x="Some e"]) simp
  show ?case
  proof (cases "normalize_url L url h")
    case (Inl e)
    then show ?thesis
      using stop by simp
  next
    case (Inr r)
    show ?thesis
    proof (cases r)
      case None
      then show ?thesis
        using Inr Cons[of s] by simp
    next
      case (Some nxt)
      show ?thesis
      proof (cases "nxt = []")
        case True
        then show ?thesis
          using Inr Some Cons[of s] by simp
      next
        case False
        show ?thesis
        proof (cases "same_scope L base nxt")
          case (Inl e)
          then show ?thesis
            using Inr Some False stop by simp
        next
          case sc: (Inr ok)
          show ?thesis
          proof (cases ok)
            case False
            then show ?thesis
              using Inr Some \<open>nxt \<noteq> []\<close> sc Cons[of s] by simp
          next
            case True
            let ?s' = "s\<lparr>queue := queue s @ [(nxt, depth + 1)], enqueued := enqueued s @ [(nxt, depth + 1)]\<rparr>"
            obtain X R where X: "enqueue_links L base url depth hs ?s'
                = ?s'\<lparr>queue := queue ?s' @ X, enqueued := enqueued ?s' @ X, raised := R\<rparr>"
              and ok: "\<forall>e \<in> set X. snd e = depth + 1 \<and> same_scope L base (fst e) = Inr True
                         \<and> (\<exists>h. normalize_url L url h = Inr (Some (fst e)))"
              using Cons[of ?s'] by blast
            have e: "\<exists>h. normalize_url L url h = Inr (Some nxt)"
              using Inr Some by blast
            have "enqueue_links L base url depth (h # hs) s
                = s\<lparr>queue := queue s @ ((nxt, depth + 1) # X),
                    enqueued := enqueued s @ ((nxt, depth + 1) # X), raised := R\<rparr>
              \<and> (\<forall>e \<in> set ((nxt, depth + 1) # X). snd e = depth + 1 \<and> same_scope L base (fst e) = Inr True
                    \<and> (\<exists>h. normalize_url L url h = Inr (Some (fst e))))"
              using Inr Some \<open>nxt \<noteq> []\<close> sc True X ok e by simp
            then show ?thesis
              by blast
          qed
        qed
      qed
    qed
  qed
qed

lemma enqueue_links_fields:
  "seen (enqueue_links L base url depth hrefs s) = seen s"
  "saved_hashes (enqueue_links L base url depth hrefs s) = saved_hashes s"
  "pages (enqueue_links L base url depth hrefs s) = pages s"
  "sys (enqueue_links L base url depth hrefs s) = sys s"
  "dequeued (enqueue_links L base url depth hrefs s) = dequeued s"
  "fetched (enqueue_links L base url depth hrefs s) = fetched s"
  "output_records (enqueue_links L base url depth hrefs s) = output_records s"
  "sleeps (enqueue_links L base url depth hrefs s) = sleeps s"
  using enqueue_links_shape[of L base url depth hrefs s] by auto

lemma enqueue_links_enqueued:
  assumes "\<forall>e \<in> set (enqueued s). Q e"
    and "\<And>e h. same_scope L base (fst e) = Inr True \<Longrightarrow> normalize_url L url h = Inr (Some (fst e)) \<Longrightarrow> Q e"
  shows "\<forall>e \<in> set (enqueued (enqueue_links L base url depth hrefs s)). Q e"
proof -
  obtain X R where X: "enqueue_links L base url depth hrefs s
      = s\<lparr>queue := queue s @ X, enqueued := enqueued s @ X, raised := R\<rparr>"
    and ok: "\<forall>e \<in> set X. snd e = depth + 1 \<and> same_scope L base (fst e) = Inr True
               \<and> (\<exists>h. normalize_url L url h = Inr (Some (fst e)))"
    using enqueue_links_shape[of L base url depth hrefs s] by blast
  have "\<forall>e \<in> set X. Q e"
    using ok assms(2) by blast
  then show ?thesis
    using assms(1) X by auto
qed

lemma write_output_writes:
  "writes (write_output L now S p content m fmt h d) = writes S
   \<or> writes (write_output L now S p content m fmt h d) = writes S @ [(p, final_content now content m fmt h)]"
  by (simp add: write_output_def Let_def)

lemma write_output_requests: "requests (write_output L now S p content m fmt h d) = requests S"
  by (simp add: write_output_def Let_def)

subsection \<open>The visited set\<close>

lemma crawl_step_visited:
  assumes "distinct (dequeued s) \<and> set (dequeued s) = seen s \<and> distinct (fetched s)
           \<and> set (fetched s) \<subseteq> seen s"
  shows "distinct (dequeued (crawl_step L W C out_dir base rp s))
         \<and> set (dequeued (crawl_step L W C out_dir base rp s)) = seen (crawl_step L W C out_dir base rp s)
         \<and> distinct (fetched (crawl_step L W C out_dir base rp s))
         \<and> set (fetched (crawl_step L W C out_dir base rp s)) \<subseteq> seen (crawl_step L W C out_dir base rp s)"
  using assms
  by (auto simp: crawl_step_def fetch_def extract_and_write_def enqueue_links_fields Let_def
           split: list.splits option.splits sum.splits prod.splits)

lemma crawl_with_frontier_cases:
  assumes "P ((new_session S)\<lparr>raised := Some ValueError\<rparr>)"
    and "P ((new_session S)\<lparr>raised := Some ZeroDivisionError\<rparr>)"
    and "P ((new_session S)\<lparr>raised := Some RegexError\<rparr>)"
    and "\<And>base rp. scope_root L seed = Inr base \<Longrightarrow> load_robots L W base = Inr rp \<Longrightarrow> rps C \<noteq> 0 \<Longrightarrow>
           P (crawl_loop L W C out_dir base rp ((new_session S)\<lparr>queue := [(base, 0)]\<rparr>))"
  shows "P (crawl_with_frontier L W S seed out_dir C)"
proof -
  have any: "P ((new_session S)\<lparr>raised := Some e\<rparr>)" for e
    using assms(1-3) by (cases e) auto
  show ?thesis
    using any assms(4) by (auto simp: crawl_with_frontier_def split: sum.splits)
qed

text \<open>
  C4.  In every frontier-crawl session no URL is requested more than once: the URLs
  requested are pairwise different, each of them had passed the visited test (so it
  was in the Visited Set before its request, whatever the outcome), the Visited Set is
  exactly the set of URLs that passed the test, each once; a turn of the loop that
  dequeues a URL already in the Visited Set only drops the entry, and one that dequeues
  a new URL which the policy allows requests it in a state whose Visited Set holds it.
\<close>

theorem frontier_fetches_each_url_once:
  "distinct (fetched (crawl_with_frontier L W S seed out_dir C))
   \<and> distinct (dequeued (crawl_with_frontier L W S seed out_dir C))
   \<and> set (fetched (crawl_with_frontier L W S seed out_dir C)) \<subseteq> set (dequeued (crawl_with_frontier L W S seed out_dir C))
   \<and> seen (crawl_with_frontier L W S seed out_dir C) = set (dequeued (crawl_with_frontier L W S seed out_dir C))
   \<and> (url \<in> seen s \<longrightarrow>
        crawl_step L W C out_dir base rp (s\<lparr>queue := (url, depth) # rest\<rparr>) = s\<lparr>queue := rest\<rparr>)
   \<and> (url \<notin> seen s \<and> policy_check rp C url \<longrightarrow>
        crawl_step L W C out_dir base rp (s\<lparr>queue := (url, depth) # rest\<rparr>)
          = fetch L W C out_dir base url depth
              (s\<lparr>queue := rest, seen := insert url (seen s), dequeued := dequeued s @ [url]\<rparr>))"
proof -
  let ?I = "\<lambda>s. distinct (dequeued s) \<and> set (dequeued s) = seen s \<and> distinct (fetched s)
                \<and> set (fetched s) \<subseteq> seen s"
  have "?I (crawl_with_frontier L W S seed out_dir C)"
  proof (rule crawl_with_frontier_cases)
    fix base rp
    show "?I (crawl_loop L W C out_dir base rp ((new_session S)\<lparr>queue := [(base, 0)]\<rparr>))"
      by (rule crawl_loop_invariant) (simp add: new_session_def, rule crawl_step_visited)
  qed (simp_all add: new_session_def)
  moreover have "url \<in> seen s \<longrightarrow>
        crawl_step L W C out_dir base rp (s\<lparr>queue := (url, depth) # rest\<rparr>) = s\<lparr>queue := rest\<rparr>"
    by (simp add: crawl_step_def)
  moreover have "url \<notin> seen s \<and> policy_check rp C url \<longrightarrow>
        crawl_step L W C out_dir base rp (s\<lparr>queue := (url, depth) # rest\<rparr>)
          = fetch L W C out_dir base url depth
              (s\<lparr>queue := rest, seen := insert url (seen s), dequeued := dequeued s @ [url]\<rparr>)"
    by (simp add: crawl_step_def Let_def)
  ultimately show ?thesis
    by auto
qed

subsection \<open>The content-hash set\<close>

lemma crawl_step_hashes:
  assumes "distinct (map snd (output_records s)) \<and> saved_hashes s = set (map snd (output_records s))"
  shows "distinct (map snd (output_records (crawl_step L W C out_dir base rp s)))
         \<and> saved_hashes (crawl_step L W C out_dir base rp s)
             = set (map snd (output_records (crawl_step L W C out_dir base rp s)))"
  using assms
  by (auto simp: crawl_step_def fetch_def extract_and_write_def enqueue_links_fields Let_def
           split: list.splits option.splits sum.splits prod.splits)

text \<open>
  C5.  In every frontier-crawl session the pages handed to the Output Writer have
  pairwise different body hashes, and the Content-Hash Set is the set of these hashes;
  a fetched page whose body hash is already in the set changes nothing but the request
  logs: nothing is written, counted or enqueued for it.
\<close>

theorem frontier_writes_each_body_once:
  "distinct (map snd (output_records (crawl_with_frontier L W S seed out_dir C)))
   \<and> saved_hashes (crawl_with_frontier L W S seed out_dir C)
       = set (map snd (output_records (crawl_with_frontier L W S seed out_dir C)))
   \<and> (http_get W (length (requests (sys s))) url = Some resp \<and> is_html_page resp
       \<and> hash_content L (resp_text resp) \<in> saved_hashes s \<longrightarrow>
        fetch L W C out_dir base url depth s
          = s\<lparr>sys := (sys s)\<lparr>requests := requests (sys s) @ [url]\<rparr>, fetched := fetched s @ [url]\<rparr>)"
proof -
  let ?I = "\<lambda>s. distinct (map snd (output_records s)) \<and> saved_hashes s = set (map snd (output_records s))"
  have "?I (crawl_with_frontier L W S seed out_dir C)"
  proof (rule crawl_with_frontier_cases)
    fix base rp
    show "?I (crawl_loop L W C out_dir base rp ((new_session S)\<lparr>queue := [(base, 0)]\<rparr>))"
      by (rule crawl_loop_invariant) (simp add: new_session_def, rule crawl_step_hashes)
  qed (simp_all add: new_session_def)
  moreover have "http_get W (length (requests (sys s))) url = Some resp \<and> is_html_page resp
       \<and> hash_content L (resp_text resp) \<in> saved_hashes s \<longrightarrow>
        fetch L W C out_dir base url depth s
          = s\<lparr>sys := (sys s)\<lparr>requests := requests (sys s) @ [url]\<rparr>, fetched := fetched s @ [url]\<rparr>"
    by (simp add: fetch_def Let_def)
  ultimately show ?thesis
    by auto
qed

subsection \<open>The example site, crawled\<close>

lemma example_crawl:
  "session_log (crawl_with_frontier lib0 example_world empty_system ''https://x/docs'' [''out''] example_config)
     = (1, None, [''https://x/docs/'', ''https://x/docs/a'', ''https://x/docs/b''],
        [''https://x/docs/'', ''https://x/docs/a'', ''https://x/docs/b''],
        [(''https://x/docs/'', ''<html>'')],
        [(''https://x/docs/a'', 1), (''https://x/docs/b'', 1), (''https://x/docs/a'', 1)],
        [([''out'', ''docs'', ''index.txt''], ''hi'')])"
  by code_simp

lemma example_crawl_stored:
  "session_log (crawl_with_frontier lib0 example_world stored_system ''https://x/docs'' [''out''] example_config)
     = (1, None, [''https://x/docs/'', ''https://x/docs/a'', ''https://x/docs/b''],
        [''https://x/docs/'', ''https://x/docs/a'', ''https://x/docs/b''],
        [(''https://x/docs/'', ''<html>'')],
        [(''https://x/docs/a'', 1), (''https://x/docs/b'', 1), (''https://x/docs/a'', 1)],
        [])"
  by code_simp

lemma hash_content_lib0: "hash_content lib0 c = c"
  by (simp add: hash_content_def lib0_def lib_parse_only_def)

text \<open>
  C4 on the example site, crawled from \<open>https://x/docs\<close>: three URLs are requested, each
  once, although \<open>https://x/docs/a\<close> is enqueued twice.
\<close>

theorem frontier_fetches_each_url_once_witness:
  "fetched (crawl_with_frontier lib0 example_world empty_system ''https://x/docs'' [''out''] example_config)
     = [''https://x/docs/'', ''https://x/docs/a'', ''https://x/docs/b'']
   \<and> enqueued (crawl_with_frontier lib0 example_world empty_system ''https://x/docs'' [''out''] example_config)
     = [(''https://x/docs/a'', 1), (''https://x/docs/b'', 1), (''https://x/docs/a'', 1)]
   \<and> distinct (fetched (crawl_with_frontier lib0 example_world empty_system ''https://x/docs'' [''out''] example_config))
   \<and> seen (crawl_with_frontier lib0 example_world empty_system ''https://x/docs'' [''out''] example_config)
     = set (dequeued (crawl_with_frontier lib0 example_world empty_system ''https://x/docs'' [''out''] example_config))"
proof -
  have f: "fetched (crawl_with_frontier lib0 example_world empty_system ''https://x/docs'' [''out''] example_config)
     = [''https://x/docs/'', ''https://x/docs/a'', ''https://x/docs/b'']"
    using example_crawl by (simp add: session_log_def)
  have e: "enqueued (crawl_with_frontier lib0 example_world empty_system ''https://x/docs'' [''out''] example_config)
     = [(''https://x/docs/a'', 1), (''https://x/docs/b'', 1), (''https://x/docs/a'', 1)]"
    using example_crawl by (simp add: session_log_def)
  show ?thesis
    using f e frontier_fetches_each_url_once[of lib0 example_world empty_system "''https://x/docs''" "[''out'']"
        example_config]
    by simp
qed

text \<open>
  C5 on the example site: the three pages fetched have the same body, and one Output
  Record is produced, for the first.
\<close>

theorem frontier_writes_each_body_once_witness:
  "output_records (crawl_with_frontier lib0 example_world empty_system ''https://x/docs'' [''out''] example_config)
     = [(''https://x/docs/'', hash_content lib0 ''<html>'')]
   \<and> writes (sys (crawl_with_frontier lib0 example_world empty_system ''https://x/docs'' [''out''] example_config))
     = [([''out'', ''docs'', ''index.txt''], ''hi'')]
   \<and> distinct (map snd (output_records
        (crawl_with_frontier lib0 example_world empty_system ''https://x/docs'' [''out''] example_config)))
   \<and> saved_hashes (crawl_with_frontier lib0 example_world empty_system ''https://x/docs'' [''out''] example_config)
     = {hash_content lib0 ''<html>''}"
proof -
  have r: "output_records (crawl_with_frontier lib0 example_world empty_system ''https://x/docs'' [''out''] example_config)
     = [(''https://x/docs/'', hash_content lib0 ''<html>'')]"
    using example_crawl by (simp add: session_log_def hash_content_lib0)
  have w: "writes (sys (crawl_with_frontier lib0 example_world empty_system ''https://x/docs'' [''out''] example_config))
     = [([''out'', ''docs'', ''index.txt''], ''hi'')]"
    using example_crawl by (simp add: session_log_def)
  show ?thesis
    using r w frontier_writes_each_body_once[of lib0 example_world empty_system "''https://x/docs''" "[''out'']"
        example_config]
    by simp
qed

subsection \<open>The written-page counter\<close>

lemma write_output_writes_le:
  "length (writes S) \<le> n \<Longrightarrow> length (writes (write_output L now S p content m fmt h d)) \<le> Suc n"
  using write_output_writes[of L now S p content m fmt h d] by auto

lemma crawl_step_counter:
  assumes "pages s = int (length (output_records s))
           \<and> length (writes (sys s)) \<le> k + length (output_records s)
           \<and> pages s \<le> max 0 (max_pages C)"
    and "running C s"
  shows "pages (crawl_step L W C out_dir base rp s)
           = int (length (output_records (crawl_step L W C out_dir base rp s)))
         \<and> length (writes (sys (crawl_step L W C out_dir base rp s)))
             \<le> k + length (output_records (crawl_step L W C out_dir base rp s))
         \<and> pages (crawl_step L W C out_dir base rp s) \<le> max 0 (max_pages C)"
  using assms
  by (auto simp: crawl_step_def fetch_def extract_and_write_def enqueue_links_fields Let_def running_def
           intro: write_output_writes_le
           split: list.splits option.splits sum.splits prod.splits)

text \<open>
  C6, as stated, on the example site in diff mode, when \<open>out/docs/index.txt\<close> already
  holds the text of the page: the session performs no write, and its counter is 1.
\<close>

theorem frontier_counter_counterexample:
  "writes (sys (crawl_with_frontier lib0 example_world stored_system ''https://x/docs'' [''out''] example_config)) = []
   \<and> pages (crawl_with_frontier lib0 example_world stored_system ''https://x/docs'' [''out''] example_config) = 1"
  using example_crawl_stored by (simp add: session_log_def)

text \<open>
  C6, amended.  In every frontier-crawl session the written-page counter (which bounds
  the crawl against max pages and is the session's result) is incremented once for
  every page handed to the Output Writer, whether the write is performed or skipped by
  diff mode: it equals the number of pages handed over, the number of writes performed
  in the session is at most the counter, and the counter does not exceed max pages
  (or 0, for a negative maximum).
\<close>

theorem frontier_counter_counts_writer_calls:
  "pages (crawl_with_frontier L W S seed out_dir C)
     = int (length (output_records (crawl_with_frontier L W S seed out_dir C)))
   \<and> length (writes (sys (crawl_with_frontier L W S seed out_dir C)))
       \<le> length (writes S) + length (output_records (crawl_with_frontier L W S seed out_dir C))
   \<and> pages (crawl_with_frontier L W S seed out_dir C) \<le> max 0 (max_pages C)"
proof (rule crawl_with_frontier_cases)
  fix base rp
  let ?I = "\<lambda>s. pages s = int (length (output_records s))
                \<and> length (writes (sys s)) \<le> length (writes S) + length (output_records s)
                \<and> pages s \<le> max 0 (max_pages C)"
  show "?I (crawl_loop L W C out_dir base rp ((new_session S)\<lparr>queue := [(base, 0)]\<rparr>))"
    by (rule crawl_loop_invariant) (simp add: new_session_def, rule crawl_step_counter)
qed (simp_all add: new_session_def)

text \<open>C6, amended, on the session of the counterexample: one page handed over, no write, counter 1.\<close>

theorem frontier_counter_counts_writer_calls_witness:
  "output_records (crawl_with_frontier lib0 example_world stored_system ''https://x/docs'' [''out''] example_config)
     = [(''https://x/docs/'', hash_content lib0 ''<html>'')]
   \<and> pages (crawl_with_frontier lib0 example_world stored_system ''https://x/docs'' [''out''] example_config) = 1
   \<and> length (writes (sys (crawl_with_frontier lib0 example_world stored_system ''https://x/docs'' [''out''] example_config)))
       \<le> length (writes stored_system) + 1"
proof -
  have r: "output_records (crawl_with_frontier lib0 example_world stored_system ''https://x/docs'' [''out''] example_config)
     = [(''https://x/docs/'', hash_content lib0 ''<html>'')]"
    using example_crawl_stored by (simp add: session_log_def hash_content_lib0)
  show ?thesis
    using r frontier_counter_counts_writer_calls[of lib0 example_world stored_system "''https://x/docs''"
        "[''out'']" example_config]
    by simp
qed

section \<open>Link extraction: properties\<close>

subsection \<open>Characters and the parts of a parsed URL\<close>

























subsection \<open>The entries appended to the frontier\<close>

lemma crawl_step_enqueued:
  assumes "\<forall>e \<in> set (enqueued s). Q e"
    and "\<And>url e h. same_scope L base (fst e) = Inr True \<Longrightarrow> normalize_url L url h = Inr (Some (fst e)) \<Longrightarrow> Q e"
  shows "\<forall>e \<in> set (enqueued (crawl_step L W C out_dir base rp s)). Q e"
proof -
  have el: "Q e"
    if "e \<in> set (enqueued (enqueue_links L base url depth hrefs t))" and "enqueued t = enqueued s"
    for e url depth hrefs and t :: session
    using enqueue_links_enqueued[of t Q L base url depth hrefs] assms that by auto
  show ?thesis
    using assms(1)
    by (auto simp: crawl_step_def fetch_def extract_and_write_def Let_def
             intro: el
             split: list.splits option.splits sum.splits prod.splits)
qed

lemma crawl_with_frontier_enqueued:
  assumes "\<And>base url e h. scope_root L seed = Inr base \<Longrightarrow> same_scope L base (fst e) = Inr True \<Longrightarrow>
             normalize_url L url h = Inr (Some (fst e)) \<Longrightarrow> Q e"
  shows "\<forall>e \<in> set (enqueued (crawl_with_frontier L W S seed out_dir C)). Q e"
proof (rule crawl_with_frontier_cases)
  fix base rp
  assume b: "scope_root L seed = Inr base"
  show "\<forall>e \<in> set (enqueued (crawl_loop L W C out_dir base rp ((new_session S)\<lparr>queue := [(base, 0)]\<rparr>))). Q e"
  proof (rule crawl_loop_invariant)
    show "\<forall>e \<in> set (enqueued ((new_session S)\<lparr>queue := [(base, 0)]\<rparr>)). Q e"
      by (simp add: new_session_def)
  next
    fix t :: session
    assume "\<forall>e \<in> set (enqueued t). Q e"
    then show "\<forall>e \<in> set (enqueued (crawl_step L W C out_dir base rp t)). Q e"
      using assms[OF b] by (rule crawl_step_enqueued)
  qed
qed (simp_all add: new_session_def)

lemma same_scope_True:
  assumes "same_scope L base u = Inr True"
  shows "\<exists>a b. urlparse L base = Inr a \<and> urlparse L u = Inr b \<and> scheme b = scheme a \<and> netloc b = netloc a
               \<and> startswith (path b) (path a)"
  using assms by (auto simp: same_scope_def split: sum.splits)

text \<open>
  C9.  In every frontier-crawl session whose seed gives the scope root \<open>base\<close>, every
  frontier entry created during link extraction has a URL that parses to the same
  scheme and the same network location (so the same host) as the scope root, and to a
  path that begins with the root's path.
\<close>

theorem enqueued_links_in_scope:
  assumes "scope_root L seed = Inr base"
  shows "\<forall>(u, d) \<in> set (enqueued (crawl_with_frontier L W S seed out_dir C)).
           \<exists>a b. urlparse L base = Inr a \<and> urlparse L u = Inr b \<and> scheme b = scheme a \<and> netloc b = netloc a
                 \<and> startswith (path b) (path a)"
proof -
  have "\<forall>e \<in> set (enqueued (crawl_with_frontier L W S seed out_dir C)).
          \<exists>a b. urlparse L base = Inr a \<and> urlparse L (fst e) = Inr b \<and> scheme b = scheme a \<and> netloc b = netloc a
                 \<and> startswith (path b) (path a)"
  proof (rule crawl_with_frontier_enqueued)
    fix base' url e h
    assume "scope_root L seed = Inr base'" and "same_scope L base' (fst e) = Inr True"
    then show "\<exists>a b. urlparse L base = Inr a \<and> urlparse L (fst e) = Inr b \<and> scheme b = scheme a
                 \<and> netloc b = netloc a \<and> startswith (path b) (path a)"
      using assms same_scope_True[of L base "fst e"] by simp
  qed
  then show ?thesis
    by (auto simp: case_prod_beta)
qed

text \<open>
  C9 on the example site: the scope root of the seed \<open>https://x/docs\<close> is
  \<open>https://x/docs/\<close>, the link to \<open>https://x/other\<close> is not enqueued, and the entry
  \<open>https://x/docs/a\<close> is in scope.
\<close>

theorem enqueued_links_in_scope_witness:
  "scope_root lib0 ''https://x/docs'' = Inr ''https://x/docs/''
   \<and> enqueued (crawl_with_frontier lib0 example_world empty_system ''https://x/docs'' [''out''] example_config)
       = [(''https://x/docs/a'', 1), (''https://x/docs/b'', 1), (''https://x/docs/a'', 1)]
   \<and> (\<exists>a b. urlparse lib0 ''https://x/docs/'' = Inr a \<and> urlparse lib0 ''https://x/docs/a'' = Inr b
            \<and> scheme b = scheme a \<and> netloc b = netloc a \<and> startswith (path b) (path a))"
proof -
  have r: "scope_root lib0 ''https://x/docs'' = Inr ''https://x/docs/''"
    by code_simp
  have e: "enqueued (crawl_with_frontier lib0 example_world empty_system ''https://x/docs'' [''out''] example_config)
       = [(''https://x/docs/a'', 1), (''https://x/docs/b'', 1), (''https://x/docs/a'', 1)]"
    using example_crawl by (simp add: session_log_def)
  show ?thesis
    using r e enqueued_links_in_scope[OF r, of example_world empty_system "[''out'']" example_config]
    by simp
qed



section \<open>Robots policy: properties\<close>

lemma load_robots_blocked:
  assumes "load_robots L W base = Inr rp"
    and "\<And>u. robots_txt W u = OtherException
              \<or> (\<exists>c. robots_txt W u = HTTPError c \<and> (c = 401 \<or> c = 403 \<or> c < 400 \<or> 500 \<le> c))"
  shows "\<not> can_fetch rp url"
proof -
  have r: "\<not> can_fetch (fst (read (robots_txt W u) RobotFileParser)) url" for u
    using assms(2)[of u] by (auto simp: read_def can_fetch_def RobotFileParser_def)
  have "\<not> can_fetch RobotFileParser url"
    by (simp add: can_fetch_def RobotFileParser_def)
  then show ?thesis
    using assms(1) r by (auto simp: load_robots_def split: sum.splits)
qed

lemma crawl_step_blocked:
  assumes "\<And>url. \<not> can_fetch rp url" and "fetched s = [] \<and> pages s = 0 \<and> sys s = S"
  shows "fetched (crawl_step L W C out_dir base rp s) = [] \<and> pages (crawl_step L W C out_dir base rp s) = 0
         \<and> sys (crawl_step L W C out_dir base rp s) = S"
  using assms by (auto simp: crawl_step_def policy_check_def Let_def split: list.splits)

text \<open>
  C7, at the inputs where the code departs from it.  When the request for robots.txt
  raises (any exception that is not an \<open>HTTPError\<close>), or is answered with status 401,
  403, or a status outside 400 to 499, the parser that \<open>load_robots\<close> returns refuses
  every URL, so the session requests no page, writes nothing and returns 0.
\<close>

theorem robots_unretrievable_blocks_every_fetch:
  assumes "\<And>u. robots_txt W u = OtherException
              \<or> (\<exists>c. robots_txt W u = HTTPError c \<and> (c = 401 \<or> c = 403 \<or> c < 400 \<or> 500 \<le> c))"
  shows "fetched (crawl_with_frontier L W S seed out_dir C) = []
         \<and> pages (crawl_with_frontier L W S seed out_dir C) = 0
         \<and> sys (crawl_with_frontier L W S seed out_dir C) = S"
proof (rule crawl_with_frontier_cases)
  fix base rp
  assume "load_robots L W base = Inr rp"
  then have b: "\<not> can_fetch rp url" for url
    using load_robots_blocked assms by blast
  let ?I = "\<lambda>s. fetched s = [] \<and> pages s = 0 \<and> sys s = S"
  show "?I (crawl_loop L W C out_dir base rp ((new_session S)\<lparr>queue := [(base, 0)]\<rparr>))"
    by (rule crawl_loop_invariant) (simp add: new_session_def, rule crawl_step_blocked[OF b])
qed (simp_all add: new_session_def)

text \<open>
  The example site with a robots.txt request that raises: the scope root is dequeued and
  marked visited, and never requested.
\<close>

theorem robots_unretrievable_blocks_every_fetch_witness:
  "robots_txt (example_world\<lparr>robots_txt := (\<lambda>robots_url. OtherException)\<rparr>) ''https://x/robots.txt'' = OtherException
   \<and> dequeued (crawl_with_frontier lib0 (example_world\<lparr>robots_txt := (\<lambda>robots_url. OtherException)\<rparr>)
                 empty_system ''https://x/docs'' [''out''] example_config) = [''https://x/docs/'']
   \<and> fetched (crawl_with_frontier lib0 (example_world\<lparr>robots_txt := (\<lambda>robots_url. OtherException)\<rparr>)
                 empty_system ''https://x/docs'' [''out''] example_config) = []
   \<and> pages (crawl_with_frontier lib0 (example_world\<lparr>robots_txt := (\<lambda>robots_url. OtherException)\<rparr>)
                 empty_system ''https://x/docs'' [''out''] example_config) = 0"
proof -
  have d: "dequeued (crawl_with_frontier lib0 (example_world\<lparr>robots_txt := (\<lambda>robots_url. OtherException)\<rparr>)
                 empty_system ''https://x/docs'' [''out''] example_config) = [''https://x/docs/'']"
    by code_simp
  have h: "robots_txt (example_world\<lparr>robots_txt := (\<lambda>robots_url. OtherException)\<rparr>) u = OtherException
              \<or> (\<exists>c. robots_txt (example_world\<lparr>robots_txt := (\<lambda>robots_url. OtherException)\<rparr>) u = HTTPError c
                    \<and> (c = 401 \<or> c = 403 \<or> c < 400 \<or> 500 \<le> c))" for u
    by simp
  show ?thesis
    using d robots_unretrievable_blocks_every_fetch[of "example_world\<lparr>robots_txt := (\<lambda>robots_url. OtherException)\<rparr>"
        lib0 empty_system "''https://x/docs''" "[''out'']" example_config, OF h]
    by simp
qed

section \<open>Harvest Orchestrator: properties\<close>

text \<open>
  C1, as stated, on the example site, which has no sitemap, with the command line of
  \<open>example_args\<close> (sitemap-first requested, no filter): \<open>main\<close> prints the exit notice for the
  seed and goes on; the Frontier Crawler is not called and no page is requested.
\<close>

theorem sitemap_only_no_fallback_counterexample:
  "map printed (main lib0 example_world example_args [''https://x/docs''] empty_system)
     = [[Trying_sitemap ''x'', Exiting_sitemap_only ''x'']]
   \<and> map (\<lambda>r. Option.is_none (frontier r)) (main lib0 example_world example_args [''https://x/docs''] empty_system)
     = [True]
   \<and> map (\<lambda>r. requests (sys_after r)) (main lib0 example_world example_args [''https://x/docs''] empty_system) = [[]]
   \<and> total_written (main lib0 example_world example_args [''https://x/docs''] empty_system) = 0"
  by code_simp

text \<open>
  C1, amended.  For every seed that parses and whose filters compile: if sitemap-first
  mode is requested and no include or exclude filter is set, the Frontier Crawler is
  not run for the seed, and when the sitemap path has written no page (no usable
  sitemap, or no in-scope URL) the orchestrator prints the exit notice and the seed
  counts for 0 pages; if sitemap-first mode is not requested, or a filter is set, the
  orchestrator runs the Frontier Crawler over the seed and the seed counts for the
  crawler's result.
\<close>

theorem main_seed_strategy:
  assumes "urlparse L seed = Inr parsed"
    and "compile_rx L (args_include A) = Inr inc"
    and "compile_rx L (args_exclude A) = Inr exc"
    and "domain = (if netloc parsed \<noteq> [] then netloc parsed else ''unknown'')"
  shows "(args_sitemap_only A \<and> \<not> truthy (args_include A) \<and> \<not> truthy (args_exclude A) \<longrightarrow>
            frontier (main_seed L W A out_dir S seed) = None
            \<and> (sm_raised (crawl_sitemap_first L W S seed (truediv out_dir domain) (crawl_config A inc exc)) = None
               \<and> count (crawl_sitemap_first L W S seed (truediv out_dir domain) (crawl_config A inc exc)) \<le> 0 \<longrightarrow>
                 printed (main_seed L W A out_dir S seed) = [Trying_sitemap domain, Exiting_sitemap_only domain]
                 \<and> written_count (main_seed L W A out_dir S seed) = 0))
       \<and> (\<not> (args_sitemap_only A \<and> \<not> truthy (args_include A) \<and> \<not> truthy (args_exclude A)) \<longrightarrow>
            frontier (main_seed L W A out_dir S seed)
              = Some (crawl_with_frontier L W S seed (truediv out_dir domain) (crawl_config A inc exc))
            \<and> printed (main_seed L W A out_dir S seed) = [Falling_back domain]
            \<and> written_count (main_seed L W A out_dir S seed)
              = pages (crawl_with_frontier L W S seed (truediv out_dir domain) (crawl_config A inc exc)))"
  using assms by (auto simp: main_seed_def Let_def)

text \<open>
  The amended C1 on the example site: with \<open>example_args\<close> the seed is left after the exit
  notice; with sitemap-first switched off the Frontier Crawler runs and writes one page.
\<close>

theorem main_seed_strategy_witness:
  "urlparse lib0 ''https://x/docs''
     = Inr \<lparr>scheme = ''https'', netloc = ''x'', path = ''/docs'', params = '''', query = '''', fragment = ''''\<rparr>
   \<and> compile_rx lib0 None = Inr None
   \<and> sm_raised (crawl_sitemap_first lib0 example_world empty_system ''https://x/docs'' (truediv [''out''] ''x'')
                 (crawl_config example_args None None)) = None
   \<and> count (crawl_sitemap_first lib0 example_world empty_system ''https://x/docs'' (truediv [''out''] ''x'')
                 (crawl_config example_args None None)) = 0
   \<and> frontier (main_seed lib0 example_world example_args [''out''] empty_system ''https://x/docs'') = None
   \<and> printed (main_seed lib0 example_world example_args [''out''] empty_system ''https://x/docs'')
       = [Trying_sitemap ''x'', Exiting_sitemap_only ''x'']
   \<and> printed (main_seed lib0 example_world (example_args\<lparr>args_sitemap_only := False\<rparr>) [''out''] empty_system
                ''https://x/docs'') = [Falling_back ''x'']
   \<and> written_count (main_seed lib0 example_world (example_args\<lparr>args_sitemap_only := False\<rparr>) [''out''] empty_system
                ''https://x/docs'') = 1"
proof -
  let ?p = "\<lparr>scheme = ''https'', netloc = ''x'', path = ''/docs'', params = '''', query = '''', fragment = ''''\<rparr>"
  have p: "urlparse lib0 ''https://x/docs'' = Inr ?p"
    by code_simp
  have c: "compile_rx lib0 None = Inr None"
    by (simp add: compile_rx_def)
  have d: "''x'' = (if netloc ?p \<noteq> [] then netloc ?p else ''unknown'')"
    by simp
  have s: "sm_raised (crawl_sitemap_first lib0 example_world empty_system ''https://x/docs'' (truediv [''out''] ''x'')
                 (crawl_config example_args None None)) = None
           \<and> count (crawl_sitemap_first lib0 example_world empty_system ''https://x/docs'' (truediv [''out''] ''x'')
                 (crawl_config example_args None None)) = 0"
    by code_simp
  have a: "args_sitemap_only example_args \<and> \<not> truthy (args_include example_args)
           \<and> \<not> truthy (args_exclude example_args)"
    by (simp add: example_args_def truthy_def)
  have ci: "args_include example_args = None" "args_exclude example_args = None"
    by (simp_all add: example_args_def)
  have w: "pages (crawl_with_frontier lib0 example_world empty_system ''https://x/docs'' (truediv [''out''] ''x'')
                 (crawl_config (example_args\<lparr>args_sitemap_only := False\<rparr>) None None)) = 1"
    by code_simp
  have on: "frontier (main_seed lib0 example_world example_args [''out''] empty_system ''https://x/docs'') = None
      \<and> printed (main_seed lib0 example_world example_args [''out''] empty_system ''https://x/docs'')
          = [Trying_sitemap ''x'', Exiting_sitemap_only ''x'']"
    using main_seed_strategy[OF p, of example_args None None "''x''" example_world "[''out'']" empty_system]
      c d s a ci by simp
  have off: "printed (main_seed lib0 example_world (example_args\<lparr>args_sitemap_only := False\<rparr>) [''out''] empty_system
                ''https://x/docs'') = [Falling_back ''x'']
      \<and> written_count (main_seed lib0 example_world (example_args\<lparr>args_sitemap_only := False\<rparr>) [''out''] empty_system
                ''https://x/docs'') = 1"
    using main_seed_strategy[OF p, of "example_args\<lparr>args_sitemap_only := False\<rparr>" None None "''x''" example_world
        "[''out'']" empty_system] c d w ci by simp
  show ?thesis
    using p c s on off by simp
qed

section \<open>Fenced code blocks: properties\<close>

text \<open>
  C8, at an input where the code departs from it.  The fenced text computed for the
  \<open>language-python\<close> block is the one the claim describes, and on a page with that block
  alone the placeholder is replaced by it.  On a page whose main content holds eleven
  \<open>pre\<close> blocks, the last being the \<open>language-python\<close> block, the placeholder of the
  eleventh block begins with the placeholder of the second: the loop of lines 457 and
  458 replaces that prefix first, so the text rendered for the eleventh block becomes
  the second block's fence followed by \<open>0\<close>, and the Python code is nowhere in the result.
\<close>

theorem eleventh_fence_not_restored:
  "fenced python_block
     = [CHR 0x0A, CHR 0x0A] @ ''```python'' @ [CHR 0x0A] @ ''foo'' @ [CHR 0x0A] @ ''  bar'' @ [CHR 0x0A] @ ''```''
       @ [CHR 0x0A, CHR 0x0A]
   \<and> restore_fences (fence_map [python_block]) (placeholder 0) = fenced python_block
   \<and> placeholder 1 = ''WEB2SCRAP_FENCE_1''
   \<and> placeholder 10 = ''WEB2SCRAP_FENCE_10''
   \<and> restore_fences (fence_map eleven_blocks) (placeholder 10) = fenced plain_block @ ''0''
   \<and> restore_fences (fence_map eleven_blocks) (join [CHR 0x0A, CHR 0x0A] (map placeholder [0..<11]))
     = join [CHR 0x0A, CHR 0x0A] (replicate 10 (fenced plain_block) @ [fenced plain_block @ ''0''])"
  by code_simp

end
